theory Spec2Isabelle
  imports Complex_Main
begin

section \<open>The adaptive response-policy engine (ReinforcementLearningAgent)\<close>

text \<open>
  A shallow embedding of \<^verbatim>\<open>agents/intelligence/reinforcement_learning_agent.py\<close>.
  Python floats are modelled as real numbers (rounding, infinities and NaN are outside the
  model); where the program converts an integer to a float, an integer too large for a
  double raises as it does in Python. Values of the dynamically typed payloads are modelled by \<open>pyval\<close>; every
  \<^verbatim>\<open>raise\<close> of the source is an \<open>Inl\<close> result, every \<^verbatim>\<open>try/except\<close> a case
  distinction on it. Random draws, the message queue, the HTTP database and the optimiser
  of the tensor library are inputs of the model (record \<open>env\<close>).
\<close>

subsection \<open>Python values\<close>

datatype pyval =
    PNone
  | PBool bool
  | PInt int
  | PFloat real
  | PStr string
  | PList "pyval list"
  | PDict "(string \<times> pyval) list"

datatype pyerr =
    AttributeError
  | TypeError
  | KeyError
  | RuntimeError
  | OverflowError
  | HTTPError
  | QueueError

text \<open>Sequencing of fallible steps: the first exception aborts the rest.\<close>

definition bnd :: "pyerr + 'a \<Rightarrow> ('a \<Rightarrow> pyerr + 'b) \<Rightarrow> pyerr + 'b" where
  "bnd m f = (case m of Inl e \<Rightarrow> Inl e | Inr x \<Rightarrow> f x)"

text \<open>\<^verbatim>\<open>d.get(key, default)\<close>: only a dict has the method.\<close>

fun py_get :: "pyval \<Rightarrow> string \<Rightarrow> pyval \<Rightarrow> pyerr + pyval" where
  "py_get (PDict d) k dflt = Inr (case map_of d k of None \<Rightarrow> dflt | Some v \<Rightarrow> v)"
| "py_get _ k dflt = Inl AttributeError"

text \<open>\<^verbatim>\<open>len(x)\<close>: defined on strings, lists and dicts.\<close>

fun py_len :: "pyval \<Rightarrow> pyerr + nat" where
  "py_len (PStr s) = Inr (length s)"
| "py_len (PList xs) = Inr (length xs)"
| "py_len (PDict d) = Inr (length (remdups (map fst d)))"
| "py_len _ = Inl TypeError"

text \<open>
  A real number whose nearest double is no finite double: its magnitude reaches the midpoint
  between the largest double, \<open>2^1024 - 2^971\<close>, and \<open>2^1024\<close>.
\<close>

definition double_overflow :: "real \<Rightarrow> bool" where
  "double_overflow r \<longleftrightarrow> \<bar>r\<bar> \<ge> 2 ^ 1024 - 2 ^ 970"

text \<open>\<^verbatim>\<open>x / k\<close> for a positive integer literal \<open>k\<close>: true division on numbers; the
  quotient of two integers raises when it is too large for a float.\<close>

fun py_div :: "pyval \<Rightarrow> nat \<Rightarrow> pyerr + pyval" where
  "py_div (PInt n) k =
     (if double_overflow (real_of_int n / real k) then Inl OverflowError
      else Inr (PFloat (real_of_int n / real k)))"
| "py_div (PFloat r) k = Inr (PFloat (r / real k))"
| "py_div (PBool b) k = Inr (PFloat ((if b then 1 else 0) / real k))"
| "py_div _ k = Inl TypeError"

text \<open>\<^verbatim>\<open>x > k\<close> for an integer literal \<open>k\<close>.\<close>

fun py_gt :: "pyval \<Rightarrow> int \<Rightarrow> pyerr + bool" where
  "py_gt (PInt n) k = Inr (n > k)"
| "py_gt (PFloat r) k = Inr (r > real_of_int k)"
| "py_gt (PBool b) k = Inr ((if b then 1 else 0) > k)"
| "py_gt _ k = Inl TypeError"

text \<open>Truth value of an object in a condition.\<close>

fun truthy :: "pyval \<Rightarrow> bool" where
  "truthy PNone = False"
| "truthy (PBool b) = b"
| "truthy (PInt n) = (n \<noteq> 0)"
| "truthy (PFloat r) = (r \<noteq> 0)"
| "truthy (PStr s) = (s \<noteq> [])"
| "truthy (PList xs) = (xs \<noteq> [])"
| "truthy (PDict d) = (d \<noteq> [])"

subsection \<open>Hyperparameters (\<^verbatim>\<open>__init__\<close>)\<close>

definition state_size :: nat where "state_size = 20"
definition action_size :: nat where "action_size = 5"
definition memory_size :: nat where "memory_size = 10000"
definition batch_size :: nat where "batch_size = 64"
definition gamma :: real where "gamma = 0.99"
definition epsilon_min :: real where "epsilon_min = 0.01"
definition epsilon_decay :: real where "epsilon_decay = 0.995"
definition update_frequency :: nat where "update_frequency = 100"
definition min_experiences :: nat where "min_experiences = 1000"

text \<open>The action mapping \<^verbatim>\<open>self.actions\<close>.\<close>

definition actions :: "nat \<rightharpoonup> string" where
  "actions = [0 \<mapsto> ''block_sender'', 1 \<mapsto> ''quarantine_message'', 2 \<mapsto> ''notify_user'',
              3 \<mapsto> ''monitor_sender'', 4 \<mapsto> ''no_action'']"

subsection \<open>\<^verbatim>\<open>_calculate_reward\<close>\<close>

definition reward_body :: "pyval \<Rightarrow> pyerr + real" where
  "reward_body result =
     bnd (py_get result ''status'' PNone) (\<lambda>status.
     bnd (py_get result ''prevented_attack'' PNone) (\<lambda>prevented_attack.
     bnd (py_get result ''false_positive'' PNone) (\<lambda>false_positive.
     bnd (py_get result ''user_feedback'' PNone) (\<lambda>user_feedback.
     bnd (py_get result ''processing_time'' (PInt 0)) (\<lambda>processing_time.
     bnd (py_gt processing_time 60) (\<lambda>too_slow.
       let reward = 0;
           reward = (if status = PStr ''success'' then reward + 1
                     else if status = PStr ''failed'' then reward - 1 else reward);
           reward = (if truthy prevented_attack then reward + 2 else reward);
           reward = (if truthy false_positive then reward - 2 else reward);
           reward = (if user_feedback = PStr ''positive'' then reward + 0.5
                     else if user_feedback = PStr ''negative'' then reward - 0.5 else reward);
           reward = (if too_slow then reward - 0.1 else reward)
       in Inr reward))))))"

definition calculate_reward :: "pyval \<Rightarrow> real" where
  "calculate_reward result = (case reward_body result of Inl e \<Rightarrow> 0 | Inr r \<Rightarrow> r)"

text \<open>The terms of the reward table, read off a dict's entries.\<close>

definition entry :: "(string \<times> pyval) list \<Rightarrow> string \<Rightarrow> pyval" where
  "entry d k = (case map_of d k of None \<Rightarrow> PNone | Some v \<Rightarrow> v)"

definition status_term :: "(string \<times> pyval) list \<Rightarrow> real" where
  "status_term d = (if entry d ''status'' = PStr ''success'' then 1
                    else if entry d ''status'' = PStr ''failed'' then - 1 else 0)"

definition prevented_term :: "(string \<times> pyval) list \<Rightarrow> real" where
  "prevented_term d = (if truthy (entry d ''prevented_attack'') then 2 else 0)"

definition false_positive_term :: "(string \<times> pyval) list \<Rightarrow> real" where
  "false_positive_term d = (if truthy (entry d ''false_positive'') then - 2 else 0)"

definition feedback_term :: "(string \<times> pyval) list \<Rightarrow> real" where
  "feedback_term d = (if entry d ''user_feedback'' = PStr ''positive'' then 0.5
                      else if entry d ''user_feedback'' = PStr ''negative'' then - 0.5 else 0)"

text \<open>The processing time of a record: absent (the default 0 applies) or a number.\<close>

fun seconds :: "pyval \<Rightarrow> real option" where
  "seconds (PInt n) = Some (real_of_int n)"
| "seconds (PFloat r) = Some r"
| "seconds (PBool b) = Some (if b then 1 else 0)"
| "seconds _ = None"

definition processing_time :: "(string \<times> pyval) list \<Rightarrow> real option" where
  "processing_time d = (case map_of d ''processing_time'' of None \<Rightarrow> Some 0 | Some v \<Rightarrow> seconds v)"

definition time_term :: "(string \<times> pyval) list \<Rightarrow> real" where
  "time_term d = (case processing_time d of Some t \<Rightarrow> (if t > 60 then - 0.1 else 0) | None \<Rightarrow> 0)"

subsection \<open>\<^verbatim>\<open>_extract_state\<close>\<close>

text \<open>\<^verbatim>\<open>len(d.get(key, [])) / k\<close> and \<^verbatim>\<open>1.0 if d.get(key) else 0.0\<close>.\<close>

definition len_div :: "pyval \<Rightarrow> string \<Rightarrow> nat \<Rightarrow> pyerr + pyval" where
  "len_div d key k =
     bnd (py_get d key (PList [])) (\<lambda>v.
     bnd (py_len v) (\<lambda>n. Inr (PFloat (real n / real k))))"

definition flag :: "pyval \<Rightarrow> string \<Rightarrow> pyerr + pyval" where
  "flag d key = bnd (py_get d key PNone) (\<lambda>v. Inr (PFloat (if truthy v then 1 else 0)))"

text \<open>The five sections of the \<^verbatim>\<open>try\<close> body, one function per section.\<close>

definition email_features :: "pyval \<Rightarrow> pyerr + pyval list" where
  "email_features data =
     bnd (py_get data ''email_analysis'' (PDict [])) (\<lambda>email_analysis.
     bnd (len_div email_analysis ''suspicious_indicators'' 10) (\<lambda>f0.
     bnd (py_get email_analysis ''authentication_score'' (PFloat 0)) (\<lambda>f1.
     bnd (py_get email_analysis ''similarity_score'' (PFloat 0)) (\<lambda>f2.
     bnd (py_get email_analysis ''urgency_score'' (PFloat 0)) (\<lambda>f3.
     bnd (len_div email_analysis ''attachments'' 5) (\<lambda>f4.
     bnd (len_div email_analysis ''links'' 10) (\<lambda>f5.
       Inr [f0, f1, f2, f3, f4, f5])))))))"

definition domain_features :: "pyval \<Rightarrow> pyerr + pyval list" where
  "domain_features data =
     bnd (py_get data ''domain_analysis'' (PDict [])) (\<lambda>domain_analysis.
     bnd (py_get domain_analysis ''age_score'' (PFloat 0)) (\<lambda>f0.
     bnd (py_get domain_analysis ''reputation_score'' (PFloat 0)) (\<lambda>f1.
     bnd (py_get domain_analysis ''similarity_score'' (PFloat 0)) (\<lambda>f2.
     bnd (flag domain_analysis ''is_suspicious'') (\<lambda>f3.
       Inr [f0, f1, f2, f3])))))"

definition threat_features :: "pyval \<Rightarrow> pyerr + pyval list" where
  "threat_features data =
     bnd (py_get data ''threat_intelligence'' (PDict [])) (\<lambda>threat_intel.
     bnd (py_get threat_intel ''risk_score'' (PFloat 0)) (\<lambda>f0.
     bnd (len_div threat_intel ''matches'' 10) (\<lambda>f1.
     bnd (len_div threat_intel ''campaigns'' 5) (\<lambda>f2.
     bnd (py_get threat_intel ''confidence'' (PFloat 0)) (\<lambda>f3.
       Inr [f0, f1, f2, f3])))))"

definition history_features :: "pyval \<Rightarrow> pyerr + pyval list" where
  "history_features data =
     bnd (py_get data ''historical_data'' (PDict [])) (\<lambda>history.
     bnd (bnd (py_get history ''previous_incidents'' (PInt 0)) (\<lambda>v. py_div v 10)) (\<lambda>f0.
     bnd (py_get history ''success_rate'' (PFloat 0)) (\<lambda>f1.
     bnd (py_get history ''false_positive_rate'' (PFloat 0)) (\<lambda>f2.
     bnd (bnd (py_get history ''average_response_time'' (PInt 0)) (\<lambda>v. py_div v 3600)) (\<lambda>f3.
       Inr [f0, f1, f2, f3])))))"

definition user_features :: "pyval \<Rightarrow> pyerr + pyval list" where
  "user_features data =
     bnd (py_get data ''user_context'' (PDict [])) (\<lambda>user_context.
     bnd (py_get user_context ''risk_level'' (PFloat 0)) (\<lambda>f0.
     bnd (flag user_context ''is_targeted'') (\<lambda>f1.
       Inr [f0, f1])))"

definition extract_body :: "pyval \<Rightarrow> pyerr + pyval list" where
  "extract_body data =
     bnd (email_features data) (\<lambda>b1.
     bnd (domain_features data) (\<lambda>b2.
     bnd (threat_features data) (\<lambda>b3.
     bnd (history_features data) (\<lambda>b4.
     bnd (user_features data) (\<lambda>b5.
       Inr (b1 @ b2 @ b3 @ b4 @ b5))))))"

definition extract_state :: "pyval \<Rightarrow> pyval list" where
  "extract_state data =
     (case extract_body data of
        Inl e \<Rightarrow> replicate state_size (PFloat 0)
      | Inr st \<Rightarrow>
          if length st < state_size then st @ replicate (state_size - length st) (PFloat 0)
          else if length st > state_size then take state_size st
          else st)"

subsection \<open>The network \<^verbatim>\<open>DQN\<close>\<close>

text \<open>A \<^verbatim>\<open>nn.Linear\<close> layer: one weight row and one bias per output.\<close>

record linear =
  weight :: "real list list"
  bias :: "real list"

definition linear_forward :: "linear \<Rightarrow> real list \<Rightarrow> real list" where
  "linear_forward l x = map2 (\<lambda>row b. sum_list (map2 (*) row x) + b) (weight l) (bias l)"

definition relu :: "real list \<Rightarrow> real list" where
  "relu x = map (max 0) x"

record dqn =
  fc1 :: linear
  fc2 :: linear
  fc3 :: linear

definition forward :: "dqn \<Rightarrow> real list \<Rightarrow> real list" where
  "forward net x =
     linear_forward (fc3 net) (relu (linear_forward (fc2 net) (relu (linear_forward (fc1 net) x))))"

text \<open>The shapes fixed by the constructor: 20 \<rightarrow> 128 \<rightarrow> 64 \<rightarrow> 5.\<close>

definition wf_linear :: "nat \<Rightarrow> nat \<Rightarrow> linear \<Rightarrow> bool" where
  "wf_linear n_in n_out l \<longleftrightarrow>
     length (weight l) = n_out \<and> list_all (\<lambda>row. length row = n_in) (weight l)
     \<and> length (bias l) = n_out"

definition wf_dqn :: "dqn \<Rightarrow> bool" where
  "wf_dqn net \<longleftrightarrow>
     wf_linear state_size 128 (fc1 net) \<and> wf_linear 128 64 (fc2 net)
     \<and> wf_linear 64 action_size (fc3 net)"

definition zero_linear :: "nat \<Rightarrow> nat \<Rightarrow> linear" where
  "zero_linear n_in n_out = \<lparr>weight = replicate n_out (replicate n_in 0), bias = replicate n_out 0\<rparr>"

definition zero_dqn :: dqn where
  "zero_dqn = \<lparr>fc1 = zero_linear state_size 128, fc2 = zero_linear 128 64,
               fc3 = zero_linear 64 action_size\<rparr>"

text \<open>
  The tensor library's \<^verbatim>\<open>max\<close> along a dimension: a left-to-right scan that keeps the
  first maximal value and its index; it raises on an empty dimension.
\<close>

fun max_from :: "real \<Rightarrow> nat \<Rightarrow> nat \<Rightarrow> real list \<Rightarrow> real \<times> nat" where
  "max_from best arg i [] = (best, arg)"
| "max_from best arg i (x # xs) =
     (if x > best then max_from x i (Suc i) xs else max_from best arg (Suc i) xs)"

definition tensor_max :: "real list \<Rightarrow> pyerr + real \<times> nat" where
  "tensor_max xs = (case xs of [] \<Rightarrow> Inl RuntimeError | x # rest \<Rightarrow> Inr (max_from x 0 1 rest))"

text \<open>\<^verbatim>\<open>torch.FloatTensor\<close> of a list (of lists) of Python values; an integer too
  large for a double raises.\<close>

fun to_float :: "pyval \<Rightarrow> pyerr + real" where
  "to_float (PFloat r) = Inr r"
| "to_float (PInt n) =
     (if double_overflow (real_of_int n) then Inl OverflowError else Inr (real_of_int n))"
| "to_float (PBool b) = Inr (if b then 1 else 0)"
| "to_float _ = Inl TypeError"

fun map_err :: "('a \<Rightarrow> pyerr + 'b) \<Rightarrow> 'a list \<Rightarrow> pyerr + 'b list" where
  "map_err f [] = Inr []"
| "map_err f (x # xs) = bnd (f x) (\<lambda>y. bnd (map_err f xs) (\<lambda>ys. Inr (y # ys)))"

definition float_tensor :: "pyval list \<Rightarrow> pyerr + real list" where
  "float_tensor vs = map_err to_float vs"

definition float_tensor2 :: "pyval list list \<Rightarrow> pyerr + real list list" where
  "float_tensor2 rows = map_err float_tensor rows"

subsection \<open>The agent's state and its environment\<close>

record experience =
  state :: "pyval list"
  action :: nat
  reward :: real
  next_state :: "pyval list"

record 'o engine =
  epsilon :: real
  policy_net :: dqn
  target_net :: dqn
  optimizer :: 'o
  memory :: "experience list"
  steps :: nat
  episodes :: nat

definition init_engine :: "dqn \<Rightarrow> 'o \<Rightarrow> 'o engine" where
  "init_engine net opt =
     \<lparr>epsilon = 1.0, policy_net = net, target_net = net, optimizer = opt, memory = [],
      steps = 0, episodes = 0\<rparr>"

text \<open>
  What one call of \<^verbatim>\<open>process\<close> takes from outside: the value of \<^verbatim>\<open>random.random()\<close>
  (in \<open>[0, 1)\<close>), the value of \<^verbatim>\<open>random.randrange(action_size)\<close>, \<^verbatim>\<open>random.sample\<close>, the
  optimiser's update of the policy parameters for a loss given as a function of them
  (\<^verbatim>\<open>zero_grad; backward; step\<close>), and whether \<^verbatim>\<open>mq.publish\<close> and
  \<^verbatim>\<open>db.update_analysis_result\<close> raise.
\<close>

record 'o env =
  random_random :: real
  random_randrange :: nat
  random_sample :: "experience list \<Rightarrow> nat \<Rightarrow> experience list"
  optimizer_step :: "(dqn \<Rightarrow> pyerr + real) \<Rightarrow> dqn \<Rightarrow> 'o \<Rightarrow> dqn \<times> 'o"
  publish_error :: "pyerr option"
  update_error :: "pyerr option"

subsection \<open>\<^verbatim>\<open>_select_action\<close>\<close>

definition select_action :: "'o env \<Rightarrow> 'o engine \<Rightarrow> real list \<Rightarrow> pyerr + nat" where
  "select_action ev s x =
     (if random_random ev > epsilon s
      then bnd (tensor_max (forward (policy_net s) x)) (\<lambda>(v, i). Inr i)
      else Inr (random_randrange ev))"

subsection \<open>The database singleton and \<^verbatim>\<open>_execute_action\<close>\<close>

text \<open>
  The methods class \<^verbatim>\<open>Database\<close> defines; looking up any other attribute of \<^verbatim>\<open>db\<close> raises.
\<close>

definition database_methods :: "string list" where
  "database_methods = [''insert_phishing_incident'', ''update_analysis_result'',
                       ''get_analysis_result'', ''cleanup'']"

definition db_attr :: "string \<Rightarrow> pyerr + unit" where
  "db_attr name = (if name \<in> set database_methods then Inr () else Inl AttributeError)"

definition str_of :: "pyerr \<Rightarrow> string" where
  "str_of e = (case e of AttributeError \<Rightarrow> ''AttributeError'' | TypeError \<Rightarrow> ''TypeError''
               | KeyError \<Rightarrow> ''KeyError'' | RuntimeError \<Rightarrow> ''RuntimeError''
               | OverflowError \<Rightarrow> ''OverflowError''
               | HTTPError \<Rightarrow> ''HTTPError'' | QueueError \<Rightarrow> ''QueueError'')"

definition publish :: "'o env \<Rightarrow> pyerr + unit" where
  "publish ev = (case publish_error ev of Some e \<Rightarrow> Inl e | None \<Rightarrow> Inr ())"

definition wait_for_action_result :: "pyval \<Rightarrow> pyerr + pyval" where
  "wait_for_action_result incident_id =
     bnd (db_attr ''get_latest_action_result'') (\<lambda>u. Inr PNone)"

definition execute_action :: "'o env \<Rightarrow> string \<Rightarrow> pyval \<Rightarrow> pyval" where
  "execute_action ev act data =
     (case bnd (py_get data ''incident_id'' PNone) (\<lambda>incident_id.
           bnd (if act = ''block_sender'' then publish ev
                else if act = ''quarantine_message'' then publish ev
                else if act = ''notify_user'' then publish ev
                else if act = ''monitor_sender'' then publish ev
                else Inr ()) (\<lambda>u.
           wait_for_action_result incident_id))
      of Inl e \<Rightarrow> PDict [(''status'', PStr ''failed''), (''error'', PStr (str_of e))]
       | Inr result \<Rightarrow> result)"

subsection \<open>Replay memory: \<^verbatim>\<open>deque(maxlen=...)\<close>\<close>

text \<open>
  \<^verbatim>\<open>append\<close> on a bounded deque adds on the right and, when the size then exceeds
  \<open>maxlen\<close>, drops one element on the left.
\<close>

definition deque_append :: "nat \<Rightarrow> 'a list \<Rightarrow> 'a \<Rightarrow> 'a list" where
  "deque_append maxlen dq x = (let dq' = dq @ [x] in if length dq' > maxlen then tl dq' else dq')"

subsection \<open>\<^verbatim>\<open>_train\<close>\<close>

text \<open>\<^verbatim>\<open>gather\<close> picks the value at an index (raising out of range); \<^verbatim>\<open>nn.MSELoss\<close> is
  the mean of the squared differences.\<close>

definition gather :: "real list \<Rightarrow> nat \<Rightarrow> pyerr + real" where
  "gather row a = (if a < length row then Inr (row ! a) else Inl RuntimeError)"

definition mse_loss :: "real list \<Rightarrow> real list \<Rightarrow> real" where
  "mse_loss inp tgt = sum_list (map2 (\<lambda>x y. (x - y)\<^sup>2) inp tgt) / real (length inp)"

text \<open>The loss of a batch as \<^verbatim>\<open>_train\<close> computes it, for policy parameters \<open>pol\<close> and
  target parameters \<open>tgt\<close>.\<close>

definition q_loss ::
  "dqn \<Rightarrow> dqn \<Rightarrow> real list list \<Rightarrow> nat list \<Rightarrow> real list \<Rightarrow> real list list \<Rightarrow> pyerr + real" where
  "q_loss pol tgt states acts rewards next_states =
     bnd (map_err (\<lambda>(x, a). gather (forward pol x) a) (zip states acts)) (\<lambda>current_q_values.
     bnd (map_err (\<lambda>x. bnd (tensor_max (forward tgt x)) (\<lambda>(v, i). Inr v)) next_states)
       (\<lambda>next_q_values.
     let expected_q_values = map2 (\<lambda>r n. r + gamma * n) rewards next_q_values
     in Inr (mse_loss current_q_values expected_q_values)))"

definition train_body :: "'o env \<Rightarrow> 'o engine \<Rightarrow> pyerr + 'o engine" where
  "train_body ev s =
     (let batch = random_sample ev (memory s) batch_size in
      bnd (float_tensor2 (map state batch)) (\<lambda>states.
      let acts = map action batch; rewards = map reward batch in
      bnd (float_tensor2 (map next_state batch)) (\<lambda>next_states.
      bnd (q_loss (policy_net s) (target_net s) states acts rewards next_states) (\<lambda>loss.
      let (pol, opt) = optimizer_step ev
                         (\<lambda>q. q_loss q (target_net s) states acts rewards next_states)
                         (policy_net s) (optimizer s)
      in Inr (s\<lparr>policy_net := pol, optimizer := opt,
                epsilon := max epsilon_min (epsilon s * epsilon_decay)\<rparr>)))))"

definition train :: "'o env \<Rightarrow> 'o engine \<Rightarrow> 'o engine" where
  "train ev s =
     (if length (memory s) < batch_size then s
      else case train_body ev s of Inl e \<Rightarrow> s | Inr s' \<Rightarrow> s')"

subsection \<open>\<^verbatim>\<open>process\<close>\<close>

record response =
  incident_id :: pyval
  action_taken :: string
  confidence :: real
  resp_reward :: real
  metrics_epsilon :: real
  metrics_memory_size :: nat
  metrics_total_steps :: nat
  metrics_total_episodes :: nat

text \<open>The statements from the memory append to the target update; none of them raises.\<close>

definition learn :: "'o env \<Rightarrow> 'o engine \<Rightarrow> experience \<Rightarrow> 'o engine" where
  "learn ev s e =
     (let s1 = s\<lparr>memory := deque_append memory_size (memory s) e\<rparr>;
          s2 = (if length (memory s1) \<ge> min_experiences then train ev s1 else s1);
          s3 = s2\<lparr>steps := steps s2 + 1\<rparr>
      in if steps s3 mod update_frequency = 0 then s3\<lparr>target_net := policy_net s3\<rparr> else s3)"

text \<open>
  The result pairs the agent's state after the call with either the exception that
  \<^verbatim>\<open>process\<close> re-raises after \<^verbatim>\<open>handle_error\<close> has logged it, or the response.
  \<^verbatim>\<open>_notify_agents\<close> handles its own exceptions and touches neither the agent's state nor
  the response; logging and timestamps are left out as well.
\<close>

definition process :: "'o env \<Rightarrow> 'o engine \<Rightarrow> pyval \<Rightarrow> 'o engine \<times> (pyerr + response)" where
  "process ev s data =
     (case py_get data ''incident_id'' PNone of
        Inl e \<Rightarrow> (s, Inl e)
      | Inr iid \<Rightarrow>
     (let current_state = extract_state data in
     (case float_tensor current_state of
        Inl e \<Rightarrow> (s, Inl e)
      | Inr state_tensor \<Rightarrow>
     (case select_action ev s state_tensor of
        Inl e \<Rightarrow> (s, Inl e)
      | Inr action_idx \<Rightarrow>
     (case actions action_idx of
        None \<Rightarrow> (s, Inl KeyError)
      | Some act \<Rightarrow>
     (let result = execute_action ev act data;
          rew = calculate_reward result;
          nxt = extract_state result;
          s' = learn ev s \<lparr>state = current_state, action = action_idx, reward = rew,
                           next_state = nxt\<rparr>
      in
     (case tensor_max (forward (policy_net s') state_tensor) of
        Inl e \<Rightarrow> (s', Inl e)
      | Inr (conf, i) \<Rightarrow>
     (case update_error ev of
        Some e \<Rightarrow> (s', Inl e)
      | None \<Rightarrow>
          (s', Inr \<lparr>incident_id = iid, action_taken = act, confidence = conf, resp_reward = rew,
                    metrics_epsilon = epsilon s', metrics_memory_size = length (memory s'),
                    metrics_total_steps = steps s',
                    metrics_total_episodes = episodes s'\<rparr>)))))))))"

text \<open>
  The statements of \<^verbatim>\<open>process\<close> up to the construction of the experience, on their own:
  the exception that ends the call there, or the experience that is stored.
\<close>

definition observe :: "'o env \<Rightarrow> 'o engine \<Rightarrow> pyval \<Rightarrow> pyerr + experience" where
  "observe ev s data =
     bnd (py_get data ''incident_id'' PNone) (\<lambda>iid.
     let current_state = extract_state data in
     bnd (float_tensor current_state) (\<lambda>state_tensor.
     bnd (select_action ev s state_tensor) (\<lambda>action_idx.
     (case actions action_idx of
        None \<Rightarrow> Inl KeyError
      | Some act \<Rightarrow>
          (let result = execute_action ev act data
           in Inr \<lparr>state = current_state, action = action_idx,
                    reward = calculate_reward result,
                    next_state = extract_state result\<rparr>)))))"

subsection \<open>\<^verbatim>\<open>_save_model_state\<close> and \<^verbatim>\<open>_load_model_state\<close>\<close>

record 'o model_state =
  ms_policy_net :: dqn
  ms_target_net :: dqn
  ms_optimizer :: 'o
  ms_epsilon :: real
  ms_steps :: nat
  ms_episodes :: nat

text \<open>The durable store holds at most one saved state under the agent's key.\<close>

definition save_model_state :: "'o engine \<Rightarrow> 'o model_state option \<Rightarrow> 'o model_state option" where
  "save_model_state s store =
     (let model_state = \<lparr>ms_policy_net = policy_net s, ms_target_net = target_net s,
                         ms_optimizer = optimizer s, ms_epsilon = epsilon s,
                         ms_steps = steps s, ms_episodes = episodes s\<rparr>
      in case bnd (db_attr ''save_model_state'') (\<lambda>u. Inr (Some model_state)) of
           Inl e \<Rightarrow> store
         | Inr store' \<Rightarrow> store')"

definition load_model_state :: "'o engine \<Rightarrow> 'o model_state option \<Rightarrow> 'o engine" where
  "load_model_state s store =
     (case bnd (db_attr ''get_model_state'') (\<lambda>u. Inr store) of
        Inl e \<Rightarrow> s
      | Inr None \<Rightarrow> s
      | Inr (Some ms) \<Rightarrow>
          s\<lparr>policy_net := ms_policy_net ms, target_net := ms_target_net ms,
            optimizer := ms_optimizer ms, epsilon := ms_epsilon ms,
            steps := ms_steps ms, episodes := ms_episodes ms\<rparr>)"

subsection \<open>The specification's notions\<close>

text \<open>
  The TD target of one experience \<open>(x, a, r, x')\<close> with numeric states, and the mean
  squared error between the policy's value of the taken action and that target.
\<close>

definition td_target :: "dqn \<Rightarrow> real list \<times> nat \<times> real \<times> real list \<Rightarrow> real" where
  "td_target tgt e = (case e of (x, a, r, x') \<Rightarrow> r + gamma * Max (set (forward tgt x')))"

definition td_error :: "dqn \<Rightarrow> dqn \<Rightarrow> real list \<times> nat \<times> real \<times> real list \<Rightarrow> real" where
  "td_error pol tgt e = (case e of (x, a, r, x') \<Rightarrow> forward pol x ! a - td_target tgt e)"

definition mean_squared_td_error ::
  "dqn \<Rightarrow> dqn \<Rightarrow> (real list \<times> nat \<times> real \<times> real list) list \<Rightarrow> real" where
  "mean_squared_td_error pol tgt batch =
     (\<Sum>e\<leftarrow>batch. (td_error pol tgt e)\<^sup>2) / real (length batch)"

text \<open>The index of the maximum, ties broken by the lowest index.\<close>

definition is_argmax :: "real list \<Rightarrow> nat \<Rightarrow> bool" where
  "is_argmax q i \<longleftrightarrow>
     i < length q \<and> list_all (\<lambda>v. v \<le> q ! i) q \<and> list_all (\<lambda>v. v < q ! i) (take i q)"

subsection \<open>A concrete environment\<close>

text \<open>An environment with the two random draws given, whose sampling takes the oldest
  experiences, whose optimiser leaves the parameters as they are, and where no I/O fails.\<close>

definition example_env :: "real \<Rightarrow> nat \<Rightarrow> unit env" where
  "example_env r k =
     \<lparr>random_random = r, random_randrange = k, random_sample = (\<lambda>m n. take n m),
      optimizer_step = (\<lambda>loss net opt. (net, opt)), publish_error = None, update_error = None\<rparr>"

text \<open>The optimiser updates parameter values in place; it keeps their shapes.\<close>

definition shape_preserving :: "'o env \<Rightarrow> bool" where
  "shape_preserving ev \<longleftrightarrow>
     (\<forall>loss net opt. wf_dqn net \<longrightarrow> wf_dqn (fst (optimizer_step ev loss net opt)))"

text \<open>The experience every incident of an agent with an all-zero network and an empty
  payload produces, and an agent whose memory holds one batch of it.\<close>

definition zero_experience :: experience where
  "zero_experience = \<lparr>state = replicate 20 (PFloat 0), action = 3, reward = - 1,
                       next_state = replicate 20 (PFloat 0)\<rparr>"

definition batch_engine :: "unit engine" where
  "batch_engine = (init_engine zero_dqn ())\<lparr>memory := replicate 64 zero_experience\<rparr>"

text \<open>
  A second network of the constructor's shape, whose output is 1 for every action; an
  environment whose optimiser moves the policy parameters to it; an agent one incident short
  of its first training step; and an agent one incident short of a target update, whose
  target network differs from its policy network.
\<close>

definition bias_dqn :: dqn where
  "bias_dqn = zero_dqn\<lparr>fc3 := \<lparr>weight = replicate action_size (replicate 64 0),
                                  bias = replicate action_size 1\<rparr>\<rparr>"

definition moving_env :: "real \<Rightarrow> nat \<Rightarrow> unit env" where
  "moving_env r k = (example_env r k)\<lparr>optimizer_step := (\<lambda>loss net opt. (bias_dqn, opt))\<rparr>"

definition warm_engine :: "unit engine" where
  "warm_engine = (init_engine zero_dqn ())\<lparr>memory := replicate 999 zero_experience\<rparr>"

definition due_engine :: "unit engine" where
  "due_engine = (init_engine zero_dqn ())\<lparr>target_net := bias_dqn, steps := 99\<rparr>"

section \<open>Properties\<close>

lemma double_overflow_zero: "\<not> double_overflow 0"
  by (simp add: double_overflow_def)

lemma py_gt_seconds:
  "py_gt v k = (case seconds v of None \<Rightarrow> Inl TypeError | Some t \<Rightarrow> Inr (t > real_of_int k))"
  by (cases v) auto

lemma reward_body_dict:
  "reward_body (PDict d) =
     (case processing_time d of
        None \<Rightarrow> Inl TypeError
      | Some t \<Rightarrow> Inr (status_term d + prevented_term d + false_positive_term d
                        + feedback_term d + time_term d))"
  by (auto simp: reward_body_def bnd_def py_gt_seconds processing_time_def status_term_def
      prevented_term_def false_positive_term_def feedback_term_def time_term_def entry_def Let_def
      split: option.splits)

text \<open>
  C4 (as amended). For an outcome dict whose \<^verbatim>\<open>processing_time\<close> is absent or a number, the
  reward is the sum of the applicable terms of the table (status, prevented attack, false
  positive, user feedback, time penalty); when \<^verbatim>\<open>processing_time\<close> is present and not a number,
  the comparison with 60 raises, the handler returns 0.0. The three sample rewards of the
  specification are 3.0, -3.0 and 1.0.
\<close>

theorem calculate_reward_sum_of_terms:
  "calculate_reward (PDict d) =
     (case processing_time d of
        None \<Rightarrow> 0
      | Some t \<Rightarrow> status_term d + prevented_term d + false_positive_term d
                  + feedback_term d + (if t > 60 then - 0.1 else 0))
   \<and> calculate_reward (PDict [(''status'', PStr ''success''), (''prevented_attack'', PBool True)]) = 3
   \<and> calculate_reward (PDict [(''status'', PStr ''failed''), (''false_positive'', PBool True)]) = - 3
   \<and> calculate_reward (PDict [(''status'', PStr ''success'')]) = 1"
  by (simp add: calculate_reward_def reward_body_dict processing_time_def status_term_def
      prevented_term_def false_positive_term_def feedback_term_def time_term_def entry_def
      split: option.splits)

text \<open>
  C4 (counterexample). The record \<^verbatim>\<open>{status: success, prevented_attack: true,
  processing_time: null}\<close> has the applicable terms +1.0 and +2.0, yet its reward is 0.0.
\<close>

theorem calculate_reward_counterexample:
  "calculate_reward (PDict [(''status'', PStr ''success''), (''prevented_attack'', PBool True),
                            (''processing_time'', PNone)]) = 0
   \<and> status_term [(''status'', PStr ''success''), (''prevented_attack'', PBool True),
                    (''processing_time'', PNone)]
     + prevented_term [(''status'', PStr ''success''), (''prevented_attack'', PBool True),
                       (''processing_time'', PNone)] = 3"
  by (simp add: calculate_reward_def reward_body_dict processing_time_def status_term_def
      prevented_term_def entry_def)

lemma deque_append_length: "length dq \<le> C \<Longrightarrow> length (deque_append C dq x) \<le> C"
  by (auto simp: deque_append_def Let_def)

lemma deque_append_drop:
  "length dq \<le> C \<Longrightarrow> deque_append C dq x = drop (length dq + 1 - C) (dq @ [x])"
  by (cases dq) (auto simp: deque_append_def Let_def drop_Cons' )

lemma foldl_deque_append:
  "length dq \<le> C \<Longrightarrow> foldl (deque_append C) dq xs = drop (length dq + length xs - C) (dq @ xs)"
proof (induction xs rule: rev_induct)
  case Nil
  then show ?case by simp
next
  case (snoc x xs)
  define ys where "ys = dq @ xs"
  define n where "n = length ys"
  let ?m = "foldl (deque_append C) dq xs"
  have m: "?m = drop (n - C) ys" using snoc by (simp add: ys_def n_def)
  have len: "length ?m \<le> C" unfolding m by (simp add: n_def)
  have "deque_append C ?m x = drop (n + 1 - C) (ys @ [x])"
  proof (cases "n < C")
    case True
    then show ?thesis unfolding m by (simp add: deque_append_def Let_def n_def)
  next
    case False
    then have l: "length (drop (n - C) ys) = C" by (simp add: n_def)
    show ?thesis
    proof (cases "C = 0")
      case True
      then show ?thesis unfolding m by (simp add: deque_append_def Let_def n_def)
    next
      case c: False
      with l have ne: "drop (n - C) ys \<noteq> []" by auto
      have "deque_append C (drop (n - C) ys) x = tl (drop (n - C) ys) @ [x]"
        using l ne by (simp add: deque_append_def Let_def)
      also have "tl (drop (n - C) ys) = drop (Suc (n - C)) ys"
        by (simp add: drop_Suc tl_drop)
      also have "Suc (n - C) = n + 1 - C" using False by simp
      also have "drop (n + 1 - C) ys @ [x] = drop (n + 1 - C) (ys @ [x])"
        using c False by (simp add: n_def)
      finally show ?thesis unfolding m .
    qed
  qed
  then show ?case by (simp add: ys_def n_def)
qed

lemma email_features_length: "email_features bag = Inr v \<Longrightarrow> length v = 6"
  by (auto simp: email_features_def bnd_def split: sum.splits)
lemma domain_features_length: "domain_features bag = Inr v \<Longrightarrow> length v = 4"
  by (auto simp: domain_features_def bnd_def split: sum.splits)
lemma threat_features_length: "threat_features bag = Inr v \<Longrightarrow> length v = 4"
  by (auto simp: threat_features_def bnd_def split: sum.splits)
lemma history_features_length: "history_features bag = Inr v \<Longrightarrow> length v = 4"
  by (auto simp: history_features_def bnd_def split: sum.splits)
lemma user_features_length: "user_features bag = Inr v \<Longrightarrow> length v = 2"
  by (auto simp: user_features_def bnd_def split: sum.splits)

lemma extract_body_length: "extract_body bag = Inr v \<Longrightarrow> length v = 20"
  by (auto simp: extract_body_def bnd_def split: sum.splits
      dest!: email_features_length domain_features_length threat_features_length
             history_features_length user_features_length)

lemma extract_state_length: "length (extract_state bag) = 20"
  by (auto simp: extract_state_def state_size_def split: sum.splits dest: extract_body_length)

lemma extract_state_body:
  "extract_state bag = (case extract_body bag of Inl e \<Rightarrow> replicate 20 (PFloat 0) | Inr v \<Rightarrow> v)"
  by (auto simp: extract_state_def state_size_def split: sum.splits dest: extract_body_length)

text \<open>
  C2 (as amended). State encoding is all or nothing: when each of the five sections (email,
  domain, threat intelligence, history, user context) yields its values, the state is their
  concatenation; when any one of them raises, the whole vector is twenty zeros. The
  result always has length 20. A missing key is no exception: it costs only its own slot,
  which takes the default.
\<close>

theorem extract_state_all_or_nothing:
  "extract_state bag =
     (case (email_features bag, domain_features bag, threat_features bag,
            history_features bag, user_features bag) of
        (Inr b1, Inr b2, Inr b3, Inr b4, Inr b5) \<Rightarrow> b1 @ b2 @ b3 @ b4 @ b5
      | _ \<Rightarrow> replicate 20 (PFloat 0))
   \<and> length (extract_state bag) = 20
   \<and> extract_state (PDict [(''email_analysis'', PDict [(''authentication_score'', PFloat 0.9)])])
       = [PFloat 0, PFloat 0.9, PFloat 0, PFloat 0, PFloat 0, PFloat 0, PFloat 0, PFloat 0,
          PFloat 0, PFloat 0, PFloat 0, PFloat 0, PFloat 0, PFloat 0, PFloat 0, PFloat 0,
          PFloat 0, PFloat 0, PFloat 0, PFloat 0]"
proof -
  have a: "extract_state bag =
     (case (email_features bag, domain_features bag, threat_features bag,
            history_features bag, user_features bag) of
        (Inr b1, Inr b2, Inr b3, Inr b4, Inr b5) \<Rightarrow> b1 @ b2 @ b3 @ b4 @ b5
      | _ \<Rightarrow> replicate 20 (PFloat 0))"
    by (simp add: extract_state_body extract_body_def bnd_def split: sum.splits)
  have c: "extract_state (PDict [(''email_analysis'', PDict [(''authentication_score'', PFloat 0.9)])])
       = [PFloat 0, PFloat 0.9, PFloat 0, PFloat 0, PFloat 0, PFloat 0, PFloat 0, PFloat 0,
          PFloat 0, PFloat 0, PFloat 0, PFloat 0, PFloat 0, PFloat 0, PFloat 0, PFloat 0,
          PFloat 0, PFloat 0, PFloat 0, PFloat 0]"
    by (simp add: extract_state_body extract_body_def bnd_def email_features_def
        domain_features_def threat_features_def history_features_def user_features_def
        len_div_def flag_def double_overflow_zero)
  from a c extract_state_length show ?thesis by blast
qed

text \<open>
  C2 (counterexample). In this bag the email section yields an authentication score of
  0.9 and only the threat-intelligence section raises (\<^verbatim>\<open>len(None)\<close>); the email slots
  of the state are zero all the same.
\<close>

theorem extract_state_counterexample:
  "email_features (PDict [(''email_analysis'', PDict [(''authentication_score'', PFloat 0.9)]),
                          (''threat_intelligence'', PDict [(''matches'', PNone)])])
     = Inr [PFloat 0, PFloat 0.9, PFloat 0, PFloat 0, PFloat 0, PFloat 0]
   \<and> threat_features (PDict [(''email_analysis'', PDict [(''authentication_score'', PFloat 0.9)]),
                            (''threat_intelligence'', PDict [(''matches'', PNone)])])
     = Inl TypeError
   \<and> take 6 (extract_state
        (PDict [(''email_analysis'', PDict [(''authentication_score'', PFloat 0.9)]),
                (''threat_intelligence'', PDict [(''matches'', PNone)])]))
     = replicate 6 (PFloat 0)"
  by (simp add: extract_state_body extract_body_def bnd_def email_features_def
        domain_features_def threat_features_def history_features_def user_features_def
        len_div_def flag_def double_overflow_zero)

lemma length_linear_forward:
  "length (linear_forward l x) = min (length (weight l)) (length (bias l))"
  by (simp add: linear_forward_def)

lemma length_forward: "wf_dqn net \<Longrightarrow> length (forward net x) = action_size"
  by (simp add: forward_def length_linear_forward wf_dqn_def wf_linear_def)

lemma max_from_index:
  "arg < i \<Longrightarrow> snd (max_from best arg i xs) < i + length xs"
proof (induction xs arbitrary: best arg i)
  case Nil
  then show ?case by simp
next
  case (Cons x xs)
  have a: "snd (max_from x i (Suc i) xs) < Suc i + length xs"
    by (rule Cons.IH) simp
  have b: "snd (max_from best arg (Suc i) xs) < Suc i + length xs"
    by (rule Cons.IH) (use Cons.prems in simp)
  from a b show ?case by simp
qed

lemma tensor_max_index:
  "xs \<noteq> [] \<Longrightarrow> \<exists>v i. tensor_max xs = Inr (v, i) \<and> i < length xs"
proof (cases xs)
  case Nil
  assume "xs \<noteq> []"
  with Nil show ?thesis by simp
next
  case (Cons x rest)
  have "snd (max_from x 0 1 rest) < 1 + length rest" by (rule max_from_index) simp
  then show ?thesis using Cons by (cases "max_from x 0 1 rest") (auto simp: tensor_max_def)
qed

lemma actions_defined: "i < action_size \<Longrightarrow> \<exists>a. actions i = Some a"
  by (auto simp: action_size_def actions_def less_Suc_eq numeral_eq_Suc)

lemma wf_zero_dqn: "wf_dqn zero_dqn"
  by (simp add: wf_dqn_def wf_linear_def zero_dqn_def zero_linear_def list_all_length)

lemma select_action_ok:
  "wf_dqn (policy_net s) \<Longrightarrow> random_randrange ev < action_size \<Longrightarrow>
     \<exists>i a. select_action ev s x = Inr i \<and> i < action_size \<and> actions i = Some a"
proof -
  assume wf: "wf_dqn (policy_net s)" and k: "random_randrange ev < action_size"
  show ?thesis
  proof (cases "random_random ev > epsilon s")
    case True
    have "forward (policy_net s) x \<noteq> []"
      using length_forward [OF wf, of x] by (auto simp: action_size_def)
    from tensor_max_index [OF this] obtain v i where
      t: "tensor_max (forward (policy_net s) x) = Inr (v, i)" and "i < length (forward (policy_net s) x)"
      by blast
    then have "i < action_size" using length_forward [OF wf, of x] by simp
    with t True actions_defined show ?thesis by (auto simp: select_action_def bnd_def)
  next
    case False
    with k actions_defined show ?thesis by (auto simp: select_action_def)
  qed
qed

text \<open>
  C10. With a policy network of the constructor's shape and a value of
  \<^verbatim>\<open>randrange(action_size)\<close> below \<open>action_size\<close>, \<^verbatim>\<open>_select_action\<close> returns, in both of its
  branches and for every input state, an index below \<open>action_size = 5\<close>, and the action
  mapping has an entry for it.
\<close>

theorem select_action_in_range:
  "wf_dqn (policy_net s) \<Longrightarrow> random_randrange ev < action_size \<Longrightarrow>
     \<exists>i a. select_action ev s x = Inr i \<and> i < action_size \<and> actions i = Some a"
  by (rule select_action_ok)

theorem select_action_in_range_witness:
  "wf_dqn (policy_net (init_engine zero_dqn ())) \<and> random_randrange (example_env 0.5 3) < action_size
   \<and> (\<exists>i a. select_action (example_env 0.5 3) (init_engine zero_dqn ()) (replicate 20 0) = Inr i
        \<and> i < action_size \<and> actions i = Some a)"
  using select_action_in_range
    [where s = "init_engine zero_dqn ()" and ev = "example_env 0.5 3" and x = "replicate 20 0"]
  by (simp add: wf_zero_dqn init_engine_def example_env_def action_size_def)

lemma max_from_argmax:
  "length pre = i \<Longrightarrow> arg < i \<Longrightarrow> best = pre ! arg \<Longrightarrow> \<forall>w\<in>set pre. w \<le> best \<Longrightarrow>
   \<forall>w\<in>set (take arg pre). w < best \<Longrightarrow> max_from best arg i xs = (v, j) \<Longrightarrow>
   j < length (pre @ xs) \<and> v = (pre @ xs) ! j \<and> (\<forall>w\<in>set (pre @ xs). w \<le> v)
   \<and> (\<forall>w\<in>set (take j (pre @ xs)). w < v)"
proof (induction xs arbitrary: pre i arg best)
  case Nil
  then show ?case by auto
next
  case (Cons x xs)
  show ?case
  proof (cases "x > best")
    case True
    with Cons.prems have m: "max_from x i (Suc i) xs = (v, j)" by simp
    have "j < length ((pre @ [x]) @ xs) \<and> v = ((pre @ [x]) @ xs) ! j
          \<and> (\<forall>w\<in>set ((pre @ [x]) @ xs). w \<le> v)
          \<and> (\<forall>w\<in>set (take j ((pre @ [x]) @ xs)). w < v)"
    proof (rule Cons.IH [OF _ _ _ _ _ m])
      show "length (pre @ [x]) = Suc i" using Cons.prems by simp
      show "i < Suc i" by simp
      show "x = (pre @ [x]) ! i" using Cons.prems by (simp add: nth_append)
      show "\<forall>w\<in>set (pre @ [x]). w \<le> x" using Cons.prems True by fastforce
      show "\<forall>w\<in>set (take i (pre @ [x])). w < x" using Cons.prems True by fastforce
    qed
    then show ?thesis by auto
  next
    case False
    with Cons.prems have m: "max_from best arg (Suc i) xs = (v, j)" by simp
    have "j < length ((pre @ [x]) @ xs) \<and> v = ((pre @ [x]) @ xs) ! j
          \<and> (\<forall>w\<in>set ((pre @ [x]) @ xs). w \<le> v)
          \<and> (\<forall>w\<in>set (take j ((pre @ [x]) @ xs)). w < v)"
    proof (rule Cons.IH [OF _ _ _ _ _ m])
      show "length (pre @ [x]) = Suc i" using Cons.prems by simp
      show "arg < Suc i" using Cons.prems by simp
      show "best = (pre @ [x]) ! arg" using Cons.prems by (simp add: nth_append)
      show "\<forall>w\<in>set (pre @ [x]). w \<le> best" using Cons.prems False by auto
      show "\<forall>w\<in>set (take arg (pre @ [x])). w < best" using Cons.prems by simp
    qed
    then show ?thesis by auto
  qed
qed

lemma tensor_max_argmax:
  "tensor_max q = Inr (v, i) \<Longrightarrow> is_argmax q i \<and> v = q ! i"
proof (cases q)
  case Nil
  assume "tensor_max q = Inr (v, i)"
  with Nil show ?thesis by (simp add: tensor_max_def)
next
  case (Cons x rest)
  assume "tensor_max q = Inr (v, i)"
  with Cons have m: "max_from x 0 1 rest = (v, i)" by (simp add: tensor_max_def)
  have "i < length ([x] @ rest) \<and> v = ([x] @ rest) ! i \<and> (\<forall>w\<in>set ([x] @ rest). w \<le> v)
        \<and> (\<forall>w\<in>set (take i ([x] @ rest)). w < v)"
    by (rule max_from_argmax [OF _ _ _ _ _ m]) simp_all
  then show ?thesis using Cons by (auto simp: is_argmax_def list_all_iff)
qed

lemma is_argmax_unique: "is_argmax q i \<Longrightarrow> is_argmax q j \<Longrightarrow> i = j"
proof (rule ccontr)
  assume a: "is_argmax q i" and b: "is_argmax q j" and "i \<noteq> j"
  then consider "i < j" | "j < i" by linarith
  then show False
  proof cases
    case 1
    then have "q ! i \<in> set (take j q)" using b by (auto simp: is_argmax_def in_set_conv_nth)
    then have "q ! i < q ! j" using b by (simp add: is_argmax_def list_all_iff)
    moreover have "q ! j \<le> q ! i" using a b by (simp add: is_argmax_def list_all_iff)
    ultimately show False by simp
  next
    case 2
    then have "q ! j \<in> set (take i q)" using a by (auto simp: is_argmax_def in_set_conv_nth)
    then have "q ! j < q ! i" using a by (simp add: is_argmax_def list_all_iff)
    moreover have "q ! i \<le> q ! j" using a b by (simp add: is_argmax_def list_all_iff)
    ultimately show False by simp
  qed
qed

lemma dot_zero: "sum_list (map2 (*) (replicate n (0::real)) x) = 0"
proof (induction n arbitrary: x)
  case 0
  then show ?case by simp
next
  case (Suc n)
  then show ?case by (cases x) auto
qed

lemma linear_forward_zero: "linear_forward (zero_linear n m) x = replicate m 0"
  by (simp add: linear_forward_def zero_linear_def zip_replicate dot_zero)

lemma forward_zero_dqn: "forward zero_dqn x = [0, 0, 0, 0, 0]"
  by (simp add: forward_def zero_dqn_def linear_forward_zero action_size_def numeral_eq_Suc)

text \<open>
  C8 (as amended). Whenever the draw of \<^verbatim>\<open>random.random()\<close> exceeds epsilon (for epsilon = 0.0:
  whenever the draw is not 0.0), \<^verbatim>\<open>_select_action\<close> returns the index of the maximum of the
  policy network's output, ties broken by the lowest index; a second run on the same state
  with the same policy parameters, its draw exceeding its epsilon too, returns the same
  index.
\<close>

theorem select_action_greedy:
  "wf_dqn (policy_net s) \<Longrightarrow> epsilon s < random_random ev \<Longrightarrow>
   policy_net s' = policy_net s \<Longrightarrow> epsilon s' < random_random ev' \<Longrightarrow>
   \<exists>i. select_action ev s x = Inr i \<and> is_argmax (forward (policy_net s) x) i
       \<and> select_action ev' s' x = Inr i"
proof -
  assume wf: "wf_dqn (policy_net s)" and g: "epsilon s < random_random ev"
    and p: "policy_net s' = policy_net s" and g': "epsilon s' < random_random ev'"
  have "forward (policy_net s) x \<noteq> []"
    using length_forward [OF wf, of x] by (auto simp: action_size_def)
  from tensor_max_index [OF this] obtain v i where
    t: "tensor_max (forward (policy_net s) x) = Inr (v, i)" by blast
  from tensor_max_argmax [OF t] have "is_argmax (forward (policy_net s) x) i" by simp
  moreover have "select_action ev s x = Inr i" using t g by (simp add: select_action_def bnd_def)
  moreover have "select_action ev' s' x = Inr i"
    using t g' p by (simp add: select_action_def bnd_def)
  ultimately show ?thesis by blast
qed

theorem select_action_greedy_witness:
  "wf_dqn (policy_net ((init_engine zero_dqn ())\<lparr>epsilon := 0\<rparr>))
   \<and> epsilon ((init_engine zero_dqn ())\<lparr>epsilon := 0\<rparr>) < random_random (example_env 0.5 3)
   \<and> epsilon ((init_engine zero_dqn ())\<lparr>epsilon := 0\<rparr>) < random_random (example_env 0.25 1)
   \<and> (\<exists>i. select_action (example_env 0.5 3) ((init_engine zero_dqn ())\<lparr>epsilon := 0\<rparr>)
             (replicate 20 0) = Inr i
          \<and> is_argmax (forward (policy_net ((init_engine zero_dqn ())\<lparr>epsilon := 0\<rparr>))
                        (replicate 20 0)) i
          \<and> select_action (example_env 0.25 1) ((init_engine zero_dqn ())\<lparr>epsilon := 0\<rparr>)
              (replicate 20 0) = Inr i)"
  using select_action_greedy
    [where s = "(init_engine zero_dqn ())\<lparr>epsilon := 0\<rparr>" and ev = "example_env 0.5 3"
       and s' = "(init_engine zero_dqn ())\<lparr>epsilon := 0\<rparr>" and ev' = "example_env 0.25 1"
       and x = "replicate 20 0"]
  by (simp add: wf_zero_dqn init_engine_def example_env_def)

text \<open>
  C8 (counterexample). With epsilon = 0.0 and the draw 0.0, which \<^verbatim>\<open>random.random()\<close> can
  return, the test \<^verbatim>\<open>random.random() > self.epsilon\<close> fails and the random branch answers:
  here index 3, while the argmax index is 0 and a run with the draw 0.5 returns 0.
\<close>

theorem select_action_epsilon_zero_counterexample:
  "epsilon ((init_engine zero_dqn ())\<lparr>epsilon := 0\<rparr>) = 0
   \<and> select_action (example_env 0 3) ((init_engine zero_dqn ())\<lparr>epsilon := 0\<rparr>)
        (replicate 20 0) = Inr 3
   \<and> select_action (example_env 0.5 3) ((init_engine zero_dqn ())\<lparr>epsilon := 0\<rparr>)
        (replicate 20 0) = Inr 0
   \<and> is_argmax (forward (policy_net ((init_engine zero_dqn ())\<lparr>epsilon := 0\<rparr>))
                 (replicate 20 0)) 0"
  by (simp add: select_action_def init_engine_def example_env_def forward_zero_dqn
      tensor_max_def bnd_def is_argmax_def)

lemma train_frame:
  "target_net (train ev s) = target_net s \<and> memory (train ev s) = memory s
   \<and> steps (train ev s) = steps s \<and> episodes (train ev s) = episodes s"
  by (auto simp: train_def train_body_def bnd_def Let_def split: sum.splits prod.splits)

lemma train_epsilon:
  "epsilon (train ev s) =
     (if batch_size \<le> length (memory s) \<and> \<not> isl (train_body ev s)
      then max epsilon_min (epsilon s * epsilon_decay) else epsilon s)"
  by (auto simp: train_def train_body_def bnd_def Let_def split: sum.splits prod.splits)

lemma train_policy:
  "policy_net (train ev s) = policy_net s
   \<or> (\<exists>loss. policy_net (train ev s) = fst (optimizer_step ev loss (policy_net s) (optimizer s)))"
  by (auto simp: train_def train_body_def bnd_def Let_def split: sum.splits prod.splits)
     (metis fst_conv)

lemma learn_memory: "memory (learn ev s e) = deque_append memory_size (memory s) e"
  by (simp add: learn_def Let_def train_frame)

lemma learn_steps: "steps (learn ev s e) = steps s + 1"
  by (simp add: learn_def Let_def train_frame)

lemma learn_target:
  "target_net (learn ev s e) =
     (if steps (learn ev s e) mod update_frequency = 0 then policy_net (learn ev s e)
      else target_net s)"
  by (simp add: learn_def Let_def train_frame)

lemma learn_epsilon:
  "epsilon (learn ev s e) =
     (if min_experiences \<le> length (deque_append memory_size (memory s) e)
      then epsilon (train ev (s\<lparr>memory := deque_append memory_size (memory s) e\<rparr>))
      else epsilon s)"
  by (simp add: learn_def Let_def)

lemma learn_policy_wf:
  "wf_dqn (policy_net s) \<Longrightarrow> shape_preserving ev \<Longrightarrow> wf_dqn (policy_net (learn ev s e))"
proof -
  assume wf: "wf_dqn (policy_net s)" and sp: "shape_preserving ev"
  let ?s1 = "s\<lparr>memory := deque_append memory_size (memory s) e\<rparr>"
  have "wf_dqn (policy_net (train ev ?s1))"
    using train_policy [of ev ?s1] wf sp by (auto simp: shape_preserving_def)
  then show ?thesis using wf by (simp add: learn_def Let_def)
qed

lemma process_state:
  "fst (process ev s data) = s \<or> (\<exists>e. fst (process ev s data) = learn ev s e)"
  by (auto simp: process_def Let_def split: sum.splits option.splits prod.splits)

lemma deque_append_length_le: "length (deque_append C dq x) \<le> length dq + 1"
  by (simp add: deque_append_def Let_def)

lemma process_epsilon_no_training:
  "length (memory s) + 1 < min_experiences \<Longrightarrow> epsilon (fst (process ev s data)) = epsilon s"
proof -
  assume a: "length (memory s) + 1 < min_experiences"
  have "epsilon (learn ev s e) = epsilon s" for e
    using a deque_append_length_le [of memory_size "memory s" e] by (simp add: learn_epsilon)
  then show ?thesis using process_state [of ev s data] by auto
qed

lemma execute_action_failed:
  "\<exists>msg. execute_action ev act data = PDict [(''status'', PStr ''failed''), (''error'', PStr msg)]"
  by (auto simp: execute_action_def bnd_def wait_for_action_result_def db_attr_def
      database_methods_def publish_def split: sum.splits option.splits)

lemma reward_failed:
  "calculate_reward (PDict [(''status'', PStr ''failed''), (''error'', PStr msg)]) = - 1"
  by (simp add: calculate_reward_def reward_body_dict processing_time_def status_term_def
      prevented_term_def false_positive_term_def feedback_term_def time_term_def entry_def)

lemma extract_state_no_category:
  "map_of d ''email_analysis'' = None \<Longrightarrow> map_of d ''domain_analysis'' = None \<Longrightarrow>
   map_of d ''threat_intelligence'' = None \<Longrightarrow> map_of d ''historical_data'' = None \<Longrightarrow>
   map_of d ''user_context'' = None \<Longrightarrow> extract_state (PDict d) = replicate 20 (PFloat 0)"
  by (simp add: extract_state_body extract_body_def bnd_def email_features_def
        domain_features_def threat_features_def history_features_def user_features_def
        len_div_def flag_def double_overflow_zero numeral_eq_Suc)

lemma float_tensor_zeros: "float_tensor (replicate n (PFloat 0)) = Inr (replicate n 0)"
  by (induction n) (simp_all add: float_tensor_def bnd_def)

lemma process_first_incident:
  assumes "random_random ev \<le> 1" and "random_randrange ev = 3"
  shows "process ev (init_engine zero_dqn opt) (PDict []) =
     ((init_engine zero_dqn opt)
        \<lparr>memory := [\<lparr>state = replicate 20 (PFloat 0), action = 3, reward = - 1,
                     next_state = replicate 20 (PFloat 0)\<rparr>], steps := 1\<rparr>,
      case update_error ev of
        Some e \<Rightarrow> Inl e
      | None \<Rightarrow>
          Inr \<lparr>incident_id = PNone, action_taken = ''monitor_sender'', confidence = 0,
               resp_reward = - 1, metrics_epsilon = 1, metrics_memory_size = 1,
               metrics_total_steps = 1, metrics_total_episodes = 0\<rparr>)"
proof -
  define s0 where "s0 = init_engine zero_dqn opt"
  obtain msg where m: "execute_action ev ''monitor_sender'' (PDict [])
      = PDict [(''status'', PStr ''failed''), (''error'', PStr msg)]"
    using execute_action_failed by blast
  have x: "extract_state (PDict [(''status'', PStr ''failed''), (''error'', PStr msg)])
      = replicate 20 (PFloat 0)"
    by (rule extract_state_no_category) simp_all
  have x0: "extract_state (PDict []) = replicate 20 (PFloat 0)"
    by (rule extract_state_no_category) simp_all
  have sel: "select_action ev s0 (replicate 20 0) = Inr 3"
    using assms by (simp add: select_action_def s0_def init_engine_def)
  have act: "actions 3 = Some ''monitor_sender''"
    by (simp add: actions_def)
  have l: "learn ev s0 \<lparr>state = replicate 20 (PFloat 0), action = 3, reward = - 1,
                         next_state = replicate 20 (PFloat 0)\<rparr>
           = s0\<lparr>memory := [\<lparr>state = replicate 20 (PFloat 0), action = 3, reward = - 1,
                            next_state = replicate 20 (PFloat 0)\<rparr>], steps := 1\<rparr>"
    by (simp add: learn_def Let_def s0_def init_engine_def deque_append_def memory_size_def
        min_experiences_def update_frequency_def)
  have pol: "policy_net s0 = zero_dqn" "epsilon s0 = 1" "episodes s0 = 0"
    by (simp_all add: s0_def init_engine_def)
  have tm: "tensor_max [0, 0, 0, 0, 0] = Inr (0, 0)"
    by (simp add: tensor_max_def)
  have "process ev s0 (PDict []) =
     (s0\<lparr>memory := [\<lparr>state = replicate 20 (PFloat 0), action = 3, reward = - 1,
                     next_state = replicate 20 (PFloat 0)\<rparr>], steps := 1\<rparr>,
      case update_error ev of
        Some e \<Rightarrow> Inl e
      | None \<Rightarrow>
          Inr \<lparr>incident_id = PNone, action_taken = ''monitor_sender'', confidence = 0,
               resp_reward = - 1, metrics_epsilon = 1, metrics_memory_size = 1,
               metrics_total_steps = 1, metrics_total_episodes = 0\<rparr>)"
    by (simp add: process_def Let_def x0 float_tensor_zeros sel act m reward_failed x l pol
        forward_zero_dqn tm split: option.splits)
  then show ?thesis by (simp add: s0_def)
qed

text \<open>
  C1 (counterexample). The first incident of a fresh agent is processed to a response, an
  action having been selected, and epsilon is still 1.0 afterwards, not
  \<open>max 0.01 (1.0 * 0.995)\<close>.
\<close>

theorem epsilon_per_incident_counterexample:
  "snd (process (example_env 0.5 3) (init_engine zero_dqn ()) (PDict [])) =
     Inr \<lparr>incident_id = PNone, action_taken = ''monitor_sender'', confidence = 0,
          resp_reward = - 1, metrics_epsilon = 1, metrics_memory_size = 1,
          metrics_total_steps = 1, metrics_total_episodes = 0\<rparr>
   \<and> epsilon (fst (process (example_env 0.5 3) (init_engine zero_dqn ()) (PDict []))) = 1
   \<and> max epsilon_min (epsilon (init_engine zero_dqn ()) * epsilon_decay) = 0.995"
  using process_first_incident [where ev = "example_env 0.5 3" and opt = "()"]
  by (simp add: example_env_def init_engine_def epsilon_min_def epsilon_decay_def)

lemma process_raises:
  assumes wf: "wf_dqn (policy_net s)" and sp: "shape_preserving ev"
    and k: "random_randrange ev < action_size"
  shows "isl (snd (process ev s data)) \<longleftrightarrow>
           isl (py_get data ''incident_id'' PNone)
           \<or> isl (float_tensor (extract_state data))
           \<or> (\<exists>e. update_error ev = Some e)"
proof (cases "py_get data ''incident_id'' PNone")
  case (Inl e)
  then show ?thesis by (simp add: process_def)
next
  case iid: (Inr iid)
  show ?thesis
  proof (cases "float_tensor (extract_state data)")
    case (Inl e)
    then show ?thesis using iid by (simp add: process_def)
  next
    case x: (Inr x)
    from select_action_ok [OF wf k] obtain i a where
      sel: "select_action ev s x = Inr i" and act: "actions i = Some a" by blast
    define s' where "s' = learn ev s \<lparr>state = extract_state data, action = i,
        reward = calculate_reward (execute_action ev a data),
        next_state = extract_state (execute_action ev a data)\<rparr>"
    have "wf_dqn (policy_net s')" unfolding s'_def by (rule learn_policy_wf [OF wf sp])
    then have "forward (policy_net s') x \<noteq> []"
      using length_forward [of "policy_net s'" x] by (auto simp: action_size_def)
    from tensor_max_index [OF this] obtain conf j where
      t: "tensor_max (forward (policy_net s') x) = Inr (conf, j)" by blast
    show ?thesis
      using iid x sel act t unfolding s'_def
      by (simp add: process_def Let_def split: option.splits)
  qed
qed

text \<open>
  C9 (as amended). With a policy network of the constructor's shape, an optimiser that keeps
  shapes and a value of \<^verbatim>\<open>randrange\<close> in range, \<^verbatim>\<open>process\<close> raises out of the agent, after
  \<^verbatim>\<open>handle_error\<close> has logged the exception, exactly when the payload is not a dict, or the
  extracted state does not convert to a float tensor (a value that is not a number, or an
  integer too large for a float), or \<^verbatim>\<open>db.update_analysis_result\<close> raises. Failures of state
  extraction, of the action dispatch, of the reward calculation and of training are handled
  where they occur and do not make \<^verbatim>\<open>process\<close> raise.
\<close>

theorem process_raises_iff:
  "wf_dqn (policy_net s) \<Longrightarrow> shape_preserving ev \<Longrightarrow> random_randrange ev < action_size \<Longrightarrow>
   isl (snd (process ev s data)) \<longleftrightarrow>
     isl (py_get data ''incident_id'' PNone)
     \<or> isl (float_tensor (extract_state data))
     \<or> (\<exists>e. update_error ev = Some e)"
  by (rule process_raises)

theorem process_raises_iff_witness:
  "wf_dqn (policy_net (init_engine zero_dqn ())) \<and> shape_preserving (example_env 0.5 3)
   \<and> random_randrange (example_env 0.5 3) < action_size
   \<and> \<not> isl (snd (process (example_env 0.5 3) (init_engine zero_dqn ()) (PDict [])))"
  using process_raises_iff
    [where s = "init_engine zero_dqn ()" and ev = "example_env 0.5 3" and data = "PDict []"]
    extract_state_no_category [of "[]"]
  by (simp add: wf_zero_dqn init_engine_def example_env_def action_size_def
      shape_preserving_def float_tensor_zeros)

text \<open>
  C9 (counterexample). When \<^verbatim>\<open>db.update_analysis_result\<close> fails, processing the first incident
  of a fresh agent raises that exception to the caller.
\<close>

theorem process_raises_counterexample:
  "snd (process ((example_env 0.5 3)\<lparr>update_error := Some HTTPError\<rparr>)
         (init_engine zero_dqn ()) (PDict [])) = Inl HTTPError"
  using process_first_incident
    [where ev = "(example_env 0.5 3)\<lparr>update_error := Some HTTPError\<rparr>" and opt = "()"]
  by (simp add: example_env_def)

text \<open>
  C3 (the code at the failing input). An agent with epsilon 0.5, 7 steps and 2 episodes
  is saved into an empty store and the store is loaded into a fresh agent: nothing was
  stored, and the fresh agent is as it was, with epsilon 1.0, no steps and no episodes.
\<close>

theorem checkpoint_roundtrip_lost:
  "save_model_state ((init_engine zero_dqn ())\<lparr>epsilon := 0.5, steps := 7, episodes := 2\<rparr>) None
     = None
   \<and> load_model_state (init_engine zero_dqn ())
        (save_model_state
           ((init_engine zero_dqn ())\<lparr>epsilon := 0.5, steps := 7, episodes := 2\<rparr>) None)
     = init_engine zero_dqn ()
   \<and> epsilon (init_engine zero_dqn ()) = 1 \<and> steps (init_engine zero_dqn ()) = 0
   \<and> episodes (init_engine zero_dqn ()) = 0"
  by (simp add: save_model_state_def load_model_state_def bnd_def db_attr_def
      database_methods_def init_engine_def)

lemma map_err_Inr: "(\<And>x. x \<in> set xs \<Longrightarrow> f x = Inr (g x)) \<Longrightarrow> map_err f xs = Inr (map g xs)"
  by (induction xs) (simp_all add: bnd_def)

lemma map_err_length: "map_err f xs = Inr ys \<Longrightarrow> length ys = length xs"
  by (induction xs arbitrary: ys) (auto simp: bnd_def split: sum.splits)

lemma tensor_max_value:
  assumes "wf_dqn net"
  shows "bnd (tensor_max (forward net x)) (\<lambda>(v, i). Inr v) = Inr (Max (set (forward net x)))"
proof -
  let ?q = "forward net x"
  have "?q \<noteq> []" using length_forward [OF assms, of x] by (auto simp: action_size_def)
  from tensor_max_index [OF this] obtain v i where t: "tensor_max ?q = Inr (v, i)" by blast
  from tensor_max_argmax [OF t] have a: "is_argmax ?q i" and v: "v = ?q ! i" by simp_all
  have "Max (set ?q) = ?q ! i"
  proof (rule Max_eqI)
    show "finite (set ?q)" by simp
    show "y \<le> ?q ! i" if "y \<in> set ?q" for y
      using a that by (simp add: is_argmax_def list_all_iff)
    show "?q ! i \<in> set ?q" using a by (simp add: is_argmax_def)
  qed
  then show ?thesis using t v by (simp add: bnd_def)
qed

lemma gather_ok:
  "wf_dqn net \<Longrightarrow> a < action_size \<Longrightarrow> gather (forward net x) a = Inr (forward net x ! a)"
  by (simp add: gather_def length_forward)

lemma q_loss_value:
  assumes "wf_dqn pol" and "wf_dqn tgt" and "list_all (\<lambda>a. a < action_size) acts"
  shows "q_loss pol tgt states acts rewards next_states =
           Inr (mse_loss (map (\<lambda>(x, a). forward pol x ! a) (zip states acts))
                  (map2 (\<lambda>r n. r + gamma * n) rewards
                     (map (\<lambda>x. Max (set (forward tgt x))) next_states)))"
proof -
  have g: "map_err (\<lambda>(x, a). gather (forward pol x) a) (zip states acts)
             = Inr (map (\<lambda>(x, a). forward pol x ! a) (zip states acts))"
  proof (rule map_err_Inr)
    fix p assume p: "p \<in> set (zip states acts)"
    obtain x a where xa: "p = (x, a)" by (cases p)
    from p have "a \<in> set acts" unfolding xa by (rule set_zip_rightD)
    then have "a < action_size" using assms(3) by (simp add: list_all_iff)
    then show "(case p of (x, a) \<Rightarrow> gather (forward pol x) a)
                 = Inr (case p of (x, a) \<Rightarrow> forward pol x ! a)"
      using assms(1) by (simp add: xa gather_ok)
  qed
  have m: "map_err (\<lambda>x. bnd (tensor_max (forward tgt x)) (\<lambda>(v, i). Inr v)) next_states
             = Inr (map (\<lambda>x. Max (set (forward tgt x))) next_states)"
    by (rule map_err_Inr) (rule tensor_max_value [OF assms(2)])
  show ?thesis unfolding q_loss_def g m by (simp add: bnd_def)
qed

lemma squared_errors_sum:
  "length xs = length as \<Longrightarrow> length as = length rs \<Longrightarrow> length rs = length ns \<Longrightarrow>
   sum_list (map2 (\<lambda>u w. (u - w)\<^sup>2) (map (\<lambda>(x, a). f x a) (zip xs as))
               (map2 (\<lambda>r n. r + c * n) rs (map g ns)))
     = (\<Sum>e\<leftarrow>zip xs (zip as (zip rs ns)).
          (case e of (x, a, r, n) \<Rightarrow> (f x a - (r + c * g n))\<^sup>2))"
  by (induction xs as rs ns rule: list_induct4) simp_all

lemma mse_is_mean_squared_td_error:
  assumes "length acts = length states" and "length rewards = length states"
    and "length next_states = length states"
  shows "mse_loss (map (\<lambda>(x, a). forward pol x ! a) (zip states acts))
           (map2 (\<lambda>r n. r + gamma * n) rewards
              (map (\<lambda>x. Max (set (forward tgt x))) next_states))
         = mean_squared_td_error pol tgt (zip states (zip acts (zip rewards next_states)))"
proof -
  have e: "(\<lambda>e. (td_error pol tgt e)\<^sup>2)
         = (\<lambda>e. case e of (x, a, r, n) \<Rightarrow>
                  (forward pol x ! a - (r + gamma * Max (set (forward tgt n))))\<^sup>2)"
    by (auto simp: td_error_def td_target_def fun_eq_iff)
  show ?thesis
    using assms
    by (simp add: mse_loss_def mean_squared_td_error_def e
        squared_errors_sum [where f = "\<lambda>x a. forward pol x ! a"
                              and g = "\<lambda>x. Max (set (forward tgt x))" and c = gamma])
qed

lemma map_err_replicate: "f x = Inr y \<Longrightarrow> map_err f (replicate n x) = Inr (replicate n y)"
  by (induction n) (simp_all add: bnd_def)

lemma float_tensor2_zeros:
  "float_tensor2 (replicate n (replicate k (PFloat 0))) = Inr (replicate n (replicate k 0))"
  unfolding float_tensor2_def by (rule map_err_replicate) (rule float_tensor_zeros)

lemma train_body_step:
  assumes pol: "wf_dqn (policy_net s)" and tgt: "wf_dqn (target_net s)"
    and b: "batch = random_sample ev (memory s) batch_size"
    and x: "float_tensor2 (map state batch) = Inr states"
    and n: "float_tensor2 (map next_state batch) = Inr next_states"
    and a: "list_all (\<lambda>e. action e < action_size) batch"
  shows "train_body ev s =
     Inr (s\<lparr>policy_net :=
              fst (optimizer_step ev
                     (\<lambda>q. q_loss q (target_net s) states (map action batch) (map reward batch)
                             next_states)
                     (policy_net s) (optimizer s)),
            optimizer :=
              snd (optimizer_step ev
                     (\<lambda>q. q_loss q (target_net s) states (map action batch) (map reward batch)
                             next_states)
                     (policy_net s) (optimizer s)),
            epsilon := max epsilon_min (epsilon s * epsilon_decay)\<rparr>)"
proof -
  have acts: "list_all (\<lambda>a. a < action_size) (map action batch)"
    using a by (simp add: list_all_iff)
  have q: "q_loss (policy_net s) (target_net s) states (map action batch) (map reward batch)
             next_states = Inr (mse_loss (map (\<lambda>(x, a). forward (policy_net s) x ! a)
                                            (zip states (map action batch)))
                  (map2 (\<lambda>r n. r + gamma * n) (map reward batch)
                     (map (\<lambda>x. Max (set (forward (target_net s) x))) next_states)))"
    by (rule q_loss_value [OF pol tgt acts])
  show ?thesis
    unfolding train_body_def Let_def b [symmetric] x n
    by (simp add: bnd_def case_prod_beta q)
qed

lemma process_observe:
  "fst (process ev s data) = (case observe ev s data of Inl err \<Rightarrow> s | Inr ex \<Rightarrow> learn ev s ex)"
  by (auto simp: process_def observe_def bnd_def Let_def
      split: sum.splits option.splits prod.splits)

lemma observe_empty:
  assumes "random_random ev \<le> epsilon s" and "random_randrange ev = 3"
  shows "observe ev s (PDict []) = Inr zero_experience"
proof -
  obtain msg where m: "execute_action ev ''monitor_sender'' (PDict [])
      = PDict [(''status'', PStr ''failed''), (''error'', PStr msg)]"
    using execute_action_failed by blast
  have x: "extract_state (PDict [(''status'', PStr ''failed''), (''error'', PStr msg)])
      = replicate 20 (PFloat 0)"
    by (rule extract_state_no_category) simp_all
  have x0: "extract_state (PDict []) = replicate 20 (PFloat 0)"
    by (rule extract_state_no_category) simp_all
  have sel: "select_action ev s (replicate 20 0) = Inr 3"
    using assms by (simp add: select_action_def)
  have act: "actions 3 = Some ''monitor_sender''"
    by (simp add: actions_def)
  show ?thesis
    unfolding observe_def Let_def x0 float_tensor_zeros
    by (simp add: bnd_def sel act m reward_failed x zero_experience_def)
qed

lemma wf_bias_dqn: "wf_dqn bias_dqn"
  by (simp add: wf_dqn_def wf_linear_def bias_dqn_def zero_dqn_def zero_linear_def list_all_length)

lemma train_step:
  assumes "batch_size \<le> length (memory s)"
    and "wf_dqn (policy_net s)" and "wf_dqn (target_net s)"
    and "batch = random_sample ev (memory s) batch_size"
    and "float_tensor2 (map state batch) = Inr states"
    and "float_tensor2 (map next_state batch) = Inr next_states"
    and "list_all (\<lambda>e. action e < action_size) batch"
  shows "train ev s =
     s\<lparr>policy_net :=
         fst (optimizer_step ev
                (\<lambda>q. q_loss q (target_net s) states (map action batch) (map reward batch)
                        next_states)
                (policy_net s) (optimizer s)),
       optimizer :=
         snd (optimizer_step ev
                (\<lambda>q. q_loss q (target_net s) states (map action batch) (map reward batch)
                        next_states)
                (policy_net s) (optimizer s)),
       epsilon := max epsilon_min (epsilon s * epsilon_decay)\<rparr>"
  using assms(1) train_body_step [OF assms(2-7)] by (simp add: train_def)

lemma warm_batch:
  "random_sample (example_env r k) (replicate 999 zero_experience @ [zero_experience]) batch_size
     = replicate 64 zero_experience"
  "random_sample (moving_env r k) (replicate 999 zero_experience @ [zero_experience]) batch_size
     = replicate 64 zero_experience"
  by (simp_all add: example_env_def moving_env_def batch_size_def)

lemma zero_batch_tensors:
  "float_tensor2 (map state (replicate n zero_experience)) = Inr (replicate n (replicate 20 0))"
  "float_tensor2 (map next_state (replicate n zero_experience))
     = Inr (replicate n (replicate 20 0))"
  "list_all (\<lambda>e. action e < action_size) (replicate n zero_experience)"
  by (simp_all add: zero_experience_def float_tensor2_zeros list_all_iff action_size_def)

lemma linear_forward_bias:
  "linear_forward \<lparr>weight = replicate m (replicate n 0), bias = replicate m c\<rparr> y = replicate m c"
  by (simp add: linear_forward_def zip_replicate dot_zero)

lemma forward_bias_dqn: "forward bias_dqn x = [1, 1, 1, 1, 1]"
proof -
  have "forward bias_dqn x = replicate action_size 1"
    by (simp add: forward_def bias_dqn_def linear_forward_bias)
  then show ?thesis by (simp add: action_size_def numeral_eq_Suc)
qed

lemma bias_dqn_neq: "bias_dqn \<noteq> zero_dqn"
proof
  assume "bias_dqn = zero_dqn"
  then have "forward bias_dqn [] = forward zero_dqn []" by simp
  then show False by (simp add: forward_bias_dqn forward_zero_dqn)
qed

lemma warm_push:
  "deque_append memory_size (memory warm_engine) zero_experience
     = replicate 999 zero_experience @ [zero_experience]"
  by (simp add: deque_append_def warm_engine_def memory_size_def)

lemma warm_observe:
  "observe (example_env (1 / 2) 3) warm_engine (PDict []) = Inr zero_experience"
  "observe (moving_env (1 / 2) 3) warm_engine (PDict []) = Inr zero_experience"
  by (rule observe_empty; simp add: example_env_def moving_env_def warm_engine_def
      init_engine_def)+

lemma warm_train_body:
  "train_body (example_env r k)
     (warm_engine\<lparr>memory := replicate 999 zero_experience @ [zero_experience]\<rparr>)
     = Inr (warm_engine\<lparr>memory := replicate 999 zero_experience @ [zero_experience],
              policy_net := zero_dqn, epsilon := max epsilon_min (1 * epsilon_decay)\<rparr>)"
  "train_body (moving_env r k)
     (warm_engine\<lparr>memory := replicate 999 zero_experience @ [zero_experience]\<rparr>)
     = Inr (warm_engine\<lparr>memory := replicate 999 zero_experience @ [zero_experience],
              policy_net := bias_dqn, epsilon := max epsilon_min (1 * epsilon_decay)\<rparr>)"
proof -
  let ?s = "warm_engine\<lparr>memory := replicate 999 zero_experience @ [zero_experience]\<rparr>"
  have b: "replicate 64 zero_experience = random_sample (example_env r k) (memory ?s) batch_size"
    "replicate 64 zero_experience = random_sample (moving_env r k) (memory ?s) batch_size"
    using warm_batch [of r k] by simp_all
  have wf: "wf_dqn (policy_net ?s)" "wf_dqn (target_net ?s)"
    by (simp_all add: warm_engine_def init_engine_def wf_zero_dqn)
  have o: "optimizer_step (example_env r k) loss (policy_net ?s) (optimizer ?s) = (zero_dqn, ())"
    "optimizer_step (moving_env r k) loss (policy_net ?s) (optimizer ?s) = (bias_dqn, ())"
    for loss
    by (simp_all add: example_env_def moving_env_def warm_engine_def init_engine_def)
  show "train_body (example_env r k) ?s
     = Inr (?s\<lparr>policy_net := zero_dqn, epsilon := max epsilon_min (1 * epsilon_decay)\<rparr>)"
    unfolding train_body_step [OF wf b(1) zero_batch_tensors] o
    by (simp add: warm_engine_def init_engine_def)
  show "train_body (moving_env r k) ?s
     = Inr (?s\<lparr>policy_net := bias_dqn, epsilon := max epsilon_min (1 * epsilon_decay)\<rparr>)"
    unfolding train_body_step [OF wf b(2) zero_batch_tensors] o
    by (simp add: warm_engine_def init_engine_def)
qed

text \<open>
  C1 (as amended). Processing an incident sets epsilon to
  \<open>max epsilon_min (epsilon * epsilon_decay)\<close> exactly when the call gets as far as storing
  the experience, the memory then holds at least \<open>min_experiences\<close> and at least
  \<open>batch_size\<close> experiences, and the training step runs without raising; in every other
  case (the call raised before, no training was due, the training step raised) epsilon
  is as it was. Selecting an action does not change it. So \<^verbatim>\<open>_train\<close> decays epsilon
  exactly when its step completes, an incident below the training threshold leaves
  epsilon unchanged, and one incident decays epsilon at most once.
\<close>

theorem epsilon_decays_per_training_step:
  "epsilon (fst (process ev s data)) =
     (case observe ev s data of
        Inl err \<Rightarrow> epsilon s
      | Inr ex \<Rightarrow>
          if min_experiences \<le> length (deque_append memory_size (memory s) ex)
             \<and> batch_size \<le> length (deque_append memory_size (memory s) ex)
             \<and> \<not> isl (train_body ev (s\<lparr>memory := deque_append memory_size (memory s) ex\<rparr>))
          then max epsilon_min (epsilon s * epsilon_decay) else epsilon s)
   \<and> epsilon (train ev s) =
       (if batch_size \<le> length (memory s) \<and> \<not> isl (train_body ev s)
        then max epsilon_min (epsilon s * epsilon_decay) else epsilon s)
   \<and> (length (memory s) + 1 < min_experiences \<longrightarrow>
        epsilon (fst (process ev s data)) = epsilon s)
   \<and> (epsilon (fst (process ev s data)) = epsilon s
        \<or> epsilon (fst (process ev s data)) = max epsilon_min (epsilon s * epsilon_decay))"
proof -
  have a: "epsilon (fst (process ev s data)) =
     (case observe ev s data of
        Inl err \<Rightarrow> epsilon s
      | Inr ex \<Rightarrow>
          if min_experiences \<le> length (deque_append memory_size (memory s) ex)
             \<and> batch_size \<le> length (deque_append memory_size (memory s) ex)
             \<and> \<not> isl (train_body ev (s\<lparr>memory := deque_append memory_size (memory s) ex\<rparr>))
          then max epsilon_min (epsilon s * epsilon_decay) else epsilon s)"
    by (simp add: process_observe learn_epsilon train_epsilon split: sum.splits)
  have "epsilon (learn ev s e) = epsilon s
        \<or> epsilon (learn ev s e) = max epsilon_min (epsilon s * epsilon_decay)" for e
    by (simp add: learn_epsilon train_epsilon)
  then have d: "epsilon (fst (process ev s data)) = epsilon s
        \<or> epsilon (fst (process ev s data)) = max epsilon_min (epsilon s * epsilon_decay)"
    using process_state [of ev s data] by metis
  from a d train_epsilon [of ev s] process_epsilon_no_training [of s ev data] show ?thesis
    by blast
qed

theorem epsilon_decays_per_training_step_witness:
  "length (memory (init_engine zero_dqn ())) + 1 < min_experiences
   \<and> epsilon (fst (process (example_env (1 / 2) 3) (init_engine zero_dqn ()) (PDict [])))
     = epsilon (init_engine zero_dqn ())
   \<and> observe (example_env (1 / 2) 3) warm_engine (PDict []) = Inr zero_experience
   \<and> length (memory warm_engine) = 999
   \<and> epsilon warm_engine = 1
   \<and> epsilon (fst (process (example_env (1 / 2) 3) warm_engine (PDict []))) = 995 / 1000"
proof -
  have fresh: "length (memory (init_engine zero_dqn ())) + 1 < min_experiences"
    by (simp add: init_engine_def min_experiences_def)
  have f: "epsilon (fst (process (example_env (1 / 2) 3) (init_engine zero_dqn ()) (PDict [])))
     = epsilon (init_engine zero_dqn ())"
    using epsilon_decays_per_training_step
      [where s = "init_engine zero_dqn ()" and ev = "example_env (1 / 2) 3"
         and data = "PDict []"] fresh
    by blast
  have tb: "\<not> isl (train_body (example_env (1 / 2) 3)
                    (warm_engine\<lparr>memory := replicate 999 zero_experience @ [zero_experience]\<rparr>))"
    by (simp add: warm_train_body(1))
  have "epsilon (fst (process (example_env (1 / 2) 3) warm_engine (PDict []))) =
     (case observe (example_env (1 / 2) 3) warm_engine (PDict []) of
        Inl err \<Rightarrow> epsilon warm_engine
      | Inr ex \<Rightarrow>
          if min_experiences \<le> length (deque_append memory_size (memory warm_engine) ex)
             \<and> batch_size \<le> length (deque_append memory_size (memory warm_engine) ex)
             \<and> \<not> isl (train_body (example_env (1 / 2) 3)
                        (warm_engine\<lparr>memory := deque_append memory_size (memory warm_engine) ex\<rparr>))
          then max epsilon_min (epsilon warm_engine * epsilon_decay) else epsilon warm_engine)"
    using epsilon_decays_per_training_step
      [where s = warm_engine and ev = "example_env (1 / 2) 3" and data = "PDict []"]
    by blast
  then have "epsilon (fst (process (example_env (1 / 2) 3) warm_engine (PDict []))) =
     (if min_experiences
           \<le> length (deque_append memory_size (memory warm_engine) zero_experience)
         \<and> batch_size
           \<le> length (deque_append memory_size (memory warm_engine) zero_experience)
         \<and> \<not> isl (train_body (example_env (1 / 2) 3)
                    (warm_engine\<lparr>memory :=
                       deque_append memory_size (memory warm_engine) zero_experience\<rparr>))
      then max epsilon_min (epsilon warm_engine * epsilon_decay) else epsilon warm_engine)"
    by (simp add: warm_observe)
  then have w: "epsilon (fst (process (example_env (1 / 2) 3) warm_engine (PDict [])))
      = 995 / 1000"
    unfolding warm_push using tb
    by (simp add: min_experiences_def batch_size_def warm_engine_def init_engine_def
        epsilon_min_def epsilon_decay_def)
  from fresh f w warm_observe(1) show ?thesis
    by (simp add: warm_engine_def init_engine_def)
qed

lemma learn_policy:
  "policy_net (learn ev s e) =
     (if min_experiences \<le> length (deque_append memory_size (memory s) e)
      then policy_net (train ev (s\<lparr>memory := deque_append memory_size (memory s) e\<rparr>))
      else policy_net s)"
  by (simp add: learn_def Let_def)

lemma learn_target_pre:
  "target_net (learn ev s e) =
     (if (steps s + 1) mod update_frequency = 0 then policy_net (learn ev s e)
      else target_net s)"
  by (simp add: learn_def Let_def train_frame)

lemma due_observe:
  "observe (example_env (1 / 2) 3) due_engine (PDict []) = Inr zero_experience"
  by (rule observe_empty; simp add: example_env_def due_engine_def init_engine_def)

text \<open>
  C7. A training step leaves the target network's parameters as they are, and so does
  loading the model state. \<^verbatim>\<open>process\<close> either raises before it stores the experience and
  changes nothing, or runs its learning part, which advances the step counter by one,
  leaves the policy parameters as training left them, and sets the target parameters to
  those policy parameters exactly when the new step count is a multiple of
  \<open>update_frequency\<close>; otherwise the target parameters stay as they were, whatever
  training did to the policy parameters.
\<close>

theorem target_net_hard_sync:
  "target_net (train ev s) = target_net s
   \<and> target_net (load_model_state s store) = target_net s
   \<and> fst (process ev s data) =
       (case observe ev s data of Inl err \<Rightarrow> s | Inr ex \<Rightarrow> learn ev s ex)
   \<and> steps (learn ev s e) = steps s + 1
   \<and> policy_net (learn ev s e) =
       (if min_experiences \<le> length (deque_append memory_size (memory s) e)
        then policy_net (train ev (s\<lparr>memory := deque_append memory_size (memory s) e\<rparr>))
        else policy_net s)
   \<and> target_net (learn ev s e) =
       (if (steps s + 1) mod update_frequency = 0 then policy_net (learn ev s e)
        else target_net s)
   \<and> target_net (fst (process ev s data)) =
       (if steps (fst (process ev s data)) = steps s + 1
           \<and> steps (fst (process ev s data)) mod update_frequency = 0
        then policy_net (fst (process ev s data)) else target_net s)"
proof -
  have a: "target_net (load_model_state s store) = target_net s"
    by (simp add: load_model_state_def bnd_def db_attr_def database_methods_def)
  have b: "target_net (fst (process ev s data)) =
       (if steps (fst (process ev s data)) = steps s + 1
           \<and> steps (fst (process ev s data)) mod update_frequency = 0
        then policy_net (fst (process ev s data)) else target_net s)"
    using process_state [of ev s data] by (auto simp: learn_steps learn_target)
  from a b train_frame [of ev s] process_observe [of ev s data] learn_steps [of ev s e]
    learn_policy [of ev s e] learn_target_pre [of ev s e]
  show ?thesis by blast
qed

theorem target_net_hard_sync_witness:
  "target_net due_engine = bias_dqn \<and> policy_net due_engine = zero_dqn
   \<and> bias_dqn \<noteq> zero_dqn \<and> steps due_engine = 99
   \<and> steps (fst (process (example_env (1 / 2) 3) due_engine (PDict []))) = 100
   \<and> policy_net (fst (process (example_env (1 / 2) 3) due_engine (PDict []))) = zero_dqn
   \<and> target_net (fst (process (example_env (1 / 2) 3) due_engine (PDict []))) = zero_dqn
   \<and> target_net warm_engine = zero_dqn \<and> policy_net warm_engine = zero_dqn
   \<and> policy_net (fst (process (moving_env (1 / 2) 3) warm_engine (PDict []))) = bias_dqn
   \<and> target_net (fst (process (moving_env (1 / 2) 3) warm_engine (PDict []))) = zero_dqn"
proof -
  have d0: "target_net due_engine = bias_dqn" "policy_net due_engine = zero_dqn"
    "steps due_engine = 99" "memory due_engine = []"
    by (simp_all add: due_engine_def init_engine_def)
  have w0: "target_net warm_engine = zero_dqn" "policy_net warm_engine = zero_dqn"
    "steps warm_engine = 0"
    by (simp_all add: warm_engine_def init_engine_def)
  have tr: "train (moving_env (1 / 2) 3)
              (warm_engine\<lparr>memory := replicate 999 zero_experience @ [zero_experience]\<rparr>)
            = warm_engine\<lparr>memory := replicate 999 zero_experience @ [zero_experience],
                policy_net := bias_dqn, epsilon := max epsilon_min (1 * epsilon_decay)\<rparr>"
    by (simp add: train_def batch_size_def warm_train_body(2))
  have due: "steps (fst (process (example_env (1 / 2) 3) due_engine (PDict []))) = 100
     \<and> policy_net (fst (process (example_env (1 / 2) 3) due_engine (PDict []))) = zero_dqn
     \<and> target_net (fst (process (example_env (1 / 2) 3) due_engine (PDict []))) = zero_dqn"
    using target_net_hard_sync
      [where s = due_engine and ev = "example_env (1 / 2) 3" and data = "PDict []"
         and e = zero_experience]
    by (simp add: due_observe d0 deque_append_def memory_size_def min_experiences_def
        update_frequency_def)
  have warm: "policy_net (fst (process (moving_env (1 / 2) 3) warm_engine (PDict []))) = bias_dqn
     \<and> target_net (fst (process (moving_env (1 / 2) 3) warm_engine (PDict []))) = zero_dqn"
    using target_net_hard_sync
      [where s = warm_engine and ev = "moving_env (1 / 2) 3" and data = "PDict []"
         and e = zero_experience]
    by (simp add: warm_observe w0 warm_push tr min_experiences_def update_frequency_def)
  from due warm d0 w0 bias_dqn_neq show ?thesis by simp
qed

text \<open>
  C6. When the memory holds at least \<open>batch_size\<close> experiences and the sampled batch
  converts to tensors, \<^verbatim>\<open>_train\<close> updates the policy parameters once, by the optimiser
  applied to the loss of the batch as a function of the policy parameters (and then decays
  epsilon); at any parameters of the network's shape this loss is the mean, over the sampled
  experiences, of the squared difference between the policy's value of the taken action and
  the TD target \<open>reward + gamma * max (target (next_state))\<close>.
\<close>

theorem train_minimises_td_error:
  assumes "batch_size \<le> length (memory s)"
    and "wf_dqn (policy_net s)" and "wf_dqn (target_net s)" and "wf_dqn pol"
    and "batch = random_sample ev (memory s) batch_size"
    and "float_tensor2 (map state batch) = Inr states"
    and "float_tensor2 (map next_state batch) = Inr next_states"
    and "list_all (\<lambda>e. action e < action_size) batch"
  shows "train ev s =
     s\<lparr>policy_net :=
         fst (optimizer_step ev
                (\<lambda>q. q_loss q (target_net s) states (map action batch) (map reward batch)
                        next_states)
                (policy_net s) (optimizer s)),
       optimizer :=
         snd (optimizer_step ev
                (\<lambda>q. q_loss q (target_net s) states (map action batch) (map reward batch)
                        next_states)
                (policy_net s) (optimizer s)),
       epsilon := max epsilon_min (epsilon s * epsilon_decay)\<rparr>
   \<and> q_loss pol (target_net s) states (map action batch) (map reward batch) next_states =
       Inr (mean_squared_td_error pol (target_net s)
              (zip states (zip (map action batch) (zip (map reward batch) next_states))))"
proof -
  have acts: "list_all (\<lambda>a. a < action_size) (map action batch)"
    using assms(8) by (simp add: list_all_iff)
  have lx: "length states = length batch"
    using map_err_length [OF assms(6) [unfolded float_tensor2_def]] by simp
  have ln: "length next_states = length batch"
    using map_err_length [OF assms(7) [unfolded float_tensor2_def]] by simp
  have "q_loss pol (target_net s) states (map action batch) (map reward batch) next_states =
       Inr (mean_squared_td_error pol (target_net s)
              (zip states (zip (map action batch) (zip (map reward batch) next_states))))"
    using q_loss_value [OF assms(4) assms(3) acts]
      mse_is_mean_squared_td_error [of "map action batch" states "map reward batch" next_states]
      lx ln
    by simp
  with train_step [OF assms(1,2,3,5,6,7,8)] show ?thesis by simp
qed

theorem train_minimises_td_error_witness:
  "batch_size \<le> length (memory batch_engine)
   \<and> wf_dqn (policy_net batch_engine) \<and> wf_dqn (target_net batch_engine) \<and> wf_dqn zero_dqn
   \<and> replicate 64 zero_experience
       = random_sample (moving_env (1 / 2) 3) (memory batch_engine) batch_size
   \<and> float_tensor2 (map state (replicate 64 zero_experience))
       = Inr (replicate 64 (replicate 20 0))
   \<and> float_tensor2 (map next_state (replicate 64 zero_experience))
       = Inr (replicate 64 (replicate 20 0))
   \<and> list_all (\<lambda>e. action e < action_size) (replicate 64 zero_experience)
   \<and> policy_net batch_engine = zero_dqn
   \<and> train (moving_env (1 / 2) 3) batch_engine
       = batch_engine\<lparr>policy_net := bias_dqn,
           epsilon := max epsilon_min (epsilon batch_engine * epsilon_decay)\<rparr>
   \<and> q_loss zero_dqn (target_net batch_engine) (replicate 64 (replicate 20 0))
        (map action (replicate 64 zero_experience)) (map reward (replicate 64 zero_experience))
        (replicate 64 (replicate 20 0))
       = Inr (mean_squared_td_error zero_dqn (target_net batch_engine)
               (zip (replicate 64 (replicate 20 0))
                  (zip (map action (replicate 64 zero_experience))
                     (zip (map reward (replicate 64 zero_experience))
                        (replicate 64 (replicate 20 0))))))"
proof -
  have h: "batch_size \<le> length (memory batch_engine)"
    "wf_dqn (policy_net batch_engine)" "wf_dqn (target_net batch_engine)"
    "replicate 64 zero_experience
       = random_sample (moving_env (1 / 2) 3) (memory batch_engine) batch_size"
    by (simp_all add: batch_engine_def init_engine_def wf_zero_dqn example_env_def
        moving_env_def batch_size_def)
  have o: "optimizer_step (moving_env r k) loss net opt = (bias_dqn, opt)" for r k loss net opt
    by (simp add: moving_env_def)
  have p: "policy_net batch_engine = zero_dqn"
    by (simp add: batch_engine_def init_engine_def)
  show ?thesis
    using train_minimises_td_error [OF h(1) h(2) h(3) wf_zero_dqn h(4) zero_batch_tensors]
      h(1,2,3) h(4) [symmetric] wf_zero_dqn zero_batch_tensors [of 64] p
    by (simp add: o)
qed

lemma process_overflow:
  assumes "double_overflow (real_of_int n)"
  shows "process ev s (PDict [(''email_analysis'', PDict [(''authentication_score'', PInt n)])])
     = (s, Inl OverflowError)"
proof -
  have x: "extract_state
             (PDict [(''email_analysis'', PDict [(''authentication_score'', PInt n)])])
           = [PFloat 0, PInt n, PFloat 0, PFloat 0, PFloat 0, PFloat 0, PFloat 0,
              PFloat 0, PFloat 0, PFloat 0, PFloat 0, PFloat 0, PFloat 0, PFloat 0, PFloat 0,
              PFloat 0, PFloat 0, PFloat 0, PFloat 0, PFloat 0]"
    by (simp add: extract_state_body extract_body_def bnd_def email_features_def
        domain_features_def threat_features_def history_features_def user_features_def
        len_div_def flag_def double_overflow_zero)
  show ?thesis
    using assms by (simp add: process_def x float_tensor_def bnd_def)
qed

lemma process_overflow_raises:
  "process ev s (PDict [(''email_analysis'', PDict [(''authentication_score'', PInt (10 ^ 400))])])
     = (s, Inl OverflowError)"
  using process_overflow [of "10 ^ 400" ev s] by (simp add: double_overflow_def)

text \<open>
  C5. Whatever is pushed into an empty bounded deque of capacity \<open>C\<close>, its size never
  exceeds \<open>C\<close>; a push at capacity drops exactly the oldest element and appends the new
  one; after \<open>C + 1\<close> pushes the deque holds the last \<open>C\<close> of them in order, so the
  first one is gone. The agent's memory is such a deque with \<open>C = memory_size = 10000\<close>:
  each processed incident pushes its experience into it.
\<close>

theorem replay_memory_bounded_fifo:
  "length (foldl (deque_append C) [] xs) \<le> C
   \<and> memory (learn ev s e) = deque_append memory_size (memory s) e
   \<and> (length dq = C \<and> 0 < C \<longrightarrow> deque_append C dq x = tl dq @ [x])
   \<and> (length xs = C + 1 \<longrightarrow>
        foldl (deque_append C) [] xs = tl xs
        \<and> length (foldl (deque_append C) [] xs) = C
        \<and> (distinct xs \<longrightarrow> hd xs \<notin> set (foldl (deque_append C) [] xs)))"
proof -
  have eq: "foldl (deque_append C) [] xs = drop (length xs - C) xs"
    using foldl_deque_append [of "[]" C xs] by simp
  have a: "length (foldl (deque_append C) [] xs) \<le> C" unfolding eq by simp
  have b: "length dq = C \<and> 0 < C \<longrightarrow> deque_append C dq x = tl dq @ [x]"
    by (cases dq) (auto simp: deque_append_def Let_def)
  have c: "length xs = C + 1 \<longrightarrow>
        foldl (deque_append C) [] xs = tl xs
        \<and> length (foldl (deque_append C) [] xs) = C
        \<and> (distinct xs \<longrightarrow> hd xs \<notin> set (foldl (deque_append C) [] xs))"
    unfolding eq by (cases xs) (auto simp: drop_Cons')
  from a b c learn_memory [of ev s e] show ?thesis by blast
qed


theorem replay_memory_bounded_fifo_witness:
  "length [1, 2 :: nat] = 2 \<and> 0 < (2 :: nat) \<and> deque_append 2 [1, 2 :: nat] 3 = [2, 3]
   \<and> length [1, 2, 3 :: nat] = 2 + 1 \<and> distinct [1, 2, 3 :: nat]
   \<and> foldl (deque_append 2) [] [1, 2, 3 :: nat] = [2, 3]
   \<and> hd [1, 2, 3 :: nat] \<notin> set (foldl (deque_append 2) [] [1, 2, 3 :: nat])"
  using replay_memory_bounded_fifo
    [where C = 2 and xs = "[1, 2, 3 :: nat]" and dq = "[1, 2 :: nat]" and x = "3 :: nat"]
  by (simp add: deque_append_def)

end
